theory Spec2Isabelle
  imports Complex_Main
begin

section \<open>Errors and tensors\<close>

text \<open>
  Tensors are nested lists in row-major order; the outermost list is axis 0.
  The float32 values of the framework are idealised as real numbers, so
  \<open>sigmoid\<close> and \<open>exp\<close> are the mathematical functions and no rounding is
  modelled. Every exception of the source is a value of \<open>error\<close>.
\<close>

datatype error =
    InvalidArgumentError
  | NotBuilt
  | AttributeError
  | RuntimeError string
  | IndexError
  | KeyError
  | ValueError
  | ZeroDivisionError

fun mapM :: "('a \<Rightarrow> error + 'b) \<Rightarrow> 'a list \<Rightarrow> error + 'b list" where
  "mapM f [] = Inr []"
| "mapM f (x # xs) =
     (case f x of
        Inl e \<Rightarrow> Inl e
      | Inr y \<Rightarrow> (case mapM f xs of Inl e \<Rightarrow> Inl e | Inr ys \<Rightarrow> Inr (y # ys)))"

text \<open>Row-major reshape of a flat buffer to \<open>(m, n)\<close>: row \<open>i\<close> is \<open>flat[i*n : (i+1)*n]\<close>.\<close>

definition reshape2 :: "nat \<Rightarrow> nat \<Rightarrow> 'a list \<Rightarrow> 'a list list" where
  "reshape2 m n flat = map (\<lambda>i. take n (drop (i * n) flat)) [0..<m]"

definition reshape4 :: "nat \<Rightarrow> nat \<Rightarrow> nat \<Rightarrow> nat \<Rightarrow> 'a list \<Rightarrow> 'a list list list list" where
  "reshape4 d1 d2 d3 d4 flat =
     map (\<lambda>row. map (reshape2 d3 d4) (reshape2 d2 (d3 * d4) row))
         (reshape2 d1 (d2 * d3 * d4) flat)"

definition map4 :: "('a \<Rightarrow> 'b) \<Rightarrow> 'a list list list list \<Rightarrow> 'b list list list list" where
  "map4 f = map (map (map (map f)))"

definition add4 :: "real list list list list \<Rightarrow> real list list list list \<Rightarrow> real list list list list" where
  "add4 a b = map2 (map2 (map2 (map2 (+)))) a b"

text \<open>One part of \<open>tf.split(x, sizes, axis=-1)\<close>: \<open>sz\<close> entries of the last axis from \<open>off\<close>.\<close>

definition slice_last :: "nat \<Rightarrow> nat \<Rightarrow> 'a list list list list \<Rightarrow> 'a list list list list" where
  "slice_last off sz t = map (map (map (\<lambda>v. take sz (drop off v)))) t"

text \<open>\<open>layers.Concatenate(axis=-1)\<close> on tensors of rank 4 (batch axis apart).\<close>

definition append_last :: "'a list list list list \<Rightarrow> 'a list list list list \<Rightarrow> 'a list list list list" where
  "append_last a b = map2 (map2 (map2 (@))) a b"

fun concatenate_last :: "'a list list list list list \<Rightarrow> 'a list list list list" where
  "concatenate_last [] = []"
| "concatenate_last [t] = t"
| "concatenate_last (t # ts) = append_last t (concatenate_last ts)"

text \<open>Broadcasting one axis to extent \<open>n\<close>: equal extents pair up, extent 1 is repeated.\<close>

definition broadcast_dim :: "nat \<Rightarrow> 'a list \<Rightarrow> error + 'a list" where
  "broadcast_dim n xs =
     (if length xs = n then Inr xs
      else (case xs of [x] \<Rightarrow> Inr (replicate n x) | _ \<Rightarrow> Inl InvalidArgumentError))"

definition sigmoid :: "real \<Rightarrow> real" where
  "sigmoid x = 1 / (1 + exp (- x))"

section \<open>The Decode layer (model/yolov4.py)\<close>

text \<open>
  The fields of \<open>Decode.__init__\<close>, and the three attributes that \<open>build\<close> sets:
  the target shapes of the two Reshape layers (the placeholder \<open>(-1,)\<close> of
  \<open>__init__\<close> is the empty list) and \<open>xy_grid\<close>, absent until \<open>build\<close> has run.
\<close>

record Decode =
  anchors :: "real list list"
  cell_width :: int
  num_classes :: nat
  xyscale :: real
  reshape0_target :: "nat list"
  xy_grid :: "real list list list list list option"
  reshape1_target :: "nat list"

definition Decode_init :: "real list list \<Rightarrow> int \<Rightarrow> nat \<Rightarrow> real \<Rightarrow> Decode" where
  "Decode_init anchs cw nc xys =
     \<lparr>anchors = anchs, cell_width = cw, num_classes = nc, xyscale = xys,
      reshape0_target = [], xy_grid = None, reshape1_target = []\<rparr>"

definition tf_range :: "nat \<Rightarrow> int list" where
  "tf_range n = map int [0..<n]"

text \<open>
  \<open>tf.meshgrid(xs, ys)\<close> with the default indexing \<open>'xy'\<close>: both results have
  shape \<open>(len ys, len xs)\<close>; the first repeats \<open>xs\<close> along every row, the second
  holds \<open>ys[r]\<close> throughout row \<open>r\<close>.
\<close>

definition meshgrid :: "'a list \<Rightarrow> 'a list \<Rightarrow> 'a list list \<times> 'a list list" where
  "meshgrid xs ys = (map (\<lambda>_. xs) ys, map (\<lambda>y. map (\<lambda>_. y) xs) ys)"

text \<open>\<open>tf.stack([a, b], axis=-1)\<close> of two matrices.\<close>

definition stack_last :: "'a list list \<times> 'a list list \<Rightarrow> 'a list list list" where
  "stack_last ab = map2 (map2 (\<lambda>a b. [a, b])) (fst ab) (snd ab)"

text \<open>
  \<open>tf.reshape\<close> of a \<open>(g, g, 2)\<close> tensor to \<open>(1, g, g, 1, 2)\<close>, which only adds
  two axes of extent 1, and \<open>tf.tile(_, [1, 1, 1, 3, 1])\<close>, which repeats axis 3.
\<close>

definition expand_1gg12 :: "'a list list list \<Rightarrow> 'a list list list list list" where
  "expand_1gg12 t = [map (map (\<lambda>v. [v])) t]"

definition tile_axis3 :: "nat \<Rightarrow> 'a list list list list list \<Rightarrow> 'a list list list list list" where
  "tile_axis3 m t = map (map (map (\<lambda>vs. concat (replicate m vs)))) t"

definition build :: "Decode \<Rightarrow> nat list \<Rightarrow> Decode" where
  "build d input_shape =
     (let g = input_shape ! 1;
          grid0 = stack_last (meshgrid (tf_range g) (tf_range g));
          grid1 = expand_1gg12 grid0;
          grid2 = tile_axis3 3 grid1;
          grid3 = map (map4 real_of_int) grid2
      in d\<lparr>reshape0_target := [g, g, 3, 5 + num_classes d],
           xy_grid := Some grid3,
           reshape1_target := [g * g * 3, 5 + num_classes d]\<rparr>)"

text \<open>
  \<open>Decode.call\<close> on one element of the batch. The Reshape layers keep axis 0,
  \<open>xy_grid\<close> has extent 1 there and the anchors have rank 2, so every operation
  of the source acts on each batch element alone.
\<close>

definition call_sample :: "Decode \<Rightarrow> bool \<Rightarrow> real list list list \<Rightarrow> error + real list list" where
  "call_sample d training x =
     (case (reshape0_target d, xy_grid d, reshape1_target d) of
        ([g1, g2, na, n], Some [grid], [m1, n1]) \<Rightarrow>
          (let flat = concat (concat x) in
           if length flat \<noteq> g1 * g2 * na * n then Inl InvalidArgumentError
           else
             (let x0 = reshape4 g1 g2 na n flat;
                  dxdy = slice_last 0 2 x0;
                  wh = slice_last 2 2 x0;
                  score = slice_last 4 1 x0;
                  classes = slice_last 5 (num_classes d) x0;
                  dxdy = map4 sigmoid dxdy;
                  xy = map4 (\<lambda>v. v * real_of_int (cell_width d))
                         (add4 (map4 (\<lambda>v. (v - 0.5) * xyscale d + 0.5) dxdy) grid)
              in case mapM (broadcast_dim 2) (anchors d) of
                   Inl e \<Rightarrow> Inl e
                 | Inr arows \<Rightarrow>
                    (case broadcast_dim na arows of
                       Inl e \<Rightarrow> Inl e
                     | Inr anch \<Rightarrow>
                        (let wh = map (map (\<lambda>cell. map2 (map2 (*)) anch cell)) (map4 exp wh);
                             score = (if \<not> training then map4 sigmoid score else score);
                             classes = (if \<not> training then map4 sigmoid classes else classes);
                             y = concatenate_last [xy, wh, score, classes];
                             yflat = concat (concat (concat y))
                         in if length yflat \<noteq> m1 * n1 then Inl InvalidArgumentError
                            else Inr (reshape2 m1 n1 yflat)))))
      | _ \<Rightarrow> Inl NotBuilt)"

definition call :: "Decode \<Rightarrow> real list list list list \<Rightarrow> bool \<Rightarrow> error + real list list list" where
  "call d x training = mapM (call_sample d training) x"

text \<open>Python's \<open>xs[i]\<close> for a literal index \<open>i \<ge> 0\<close>.\<close>

definition getitem :: "'a list \<Rightarrow> nat \<Rightarrow> error + 'a" where
  "getitem xs i = (if i < length xs then Inr (xs ! i) else Inl IndexError)"

section \<open>The YOLOv4 model (model/yolov4.py)\<close>

text \<open>
  Of the layers of \<open>YOLOv4.__init__\<close> only the three Decode heads are code of this
  file; the convolutions and the backbone are layers defined elsewhere and enter
  \<open>YOLOv4_call\<close> as the parameter \<open>heads\<close>, which maps the input batch to the outputs
  of \<open>conv93\<close>, \<open>conv101\<close> and \<open>conv109\<close>.
\<close>

record YOLOv4 =
  decode93 :: Decode
  decode101 :: Decode
  decode109 :: Decode

definition YOLOv4_init :: "real list list list \<Rightarrow> nat \<Rightarrow> real list \<Rightarrow> error + YOLOv4" where
  "YOLOv4_init anchs nc xyscales =
     (case (getitem anchs 0, getitem xyscales 0, getitem anchs 1, getitem xyscales 1,
            getitem anchs 2, getitem xyscales 2) of
        (Inr a0, Inr s0, Inr a1, Inr s1, Inr a2, Inr s2) \<Rightarrow>
          Inr \<lparr>decode93 = Decode_init a0 8 nc s0,
               decode101 = Decode_init a1 16 nc s1,
               decode109 = Decode_init a2 32 nc s2\<rparr>
      | _ \<Rightarrow> Inl IndexError)"

text \<open>The static shape \<open>(batch, height, width, channels)\<close> of a batch tensor.\<close>

definition static_shape :: "'a list list list list \<Rightarrow> nat list" where
  "static_shape x =
     [length x,
      (case x of [] \<Rightarrow> 0 | s # _ \<Rightarrow> length s),
      (case x of (r # _) # _ \<Rightarrow> length r | _ \<Rightarrow> 0),
      (case x of ((v # _) # _) # _ \<Rightarrow> length v | _ \<Rightarrow> 0)]"

text \<open>
  Invoking a Decode layer as \<open>self.decode93(x, training)\<close>: the framework runs
  \<open>build\<close> with the shape of the input, then \<open>call\<close>.
\<close>

definition Decode_apply :: "Decode \<Rightarrow> real list list list list \<Rightarrow> bool \<Rightarrow> error + real list list list" where
  "Decode_apply d x training = call (build d (static_shape x)) x training"

text \<open>\<open>layers.Concatenate(axis=1)\<close> of three batches of candidate rows.\<close>

definition concat_total :: "'a list list \<Rightarrow> 'a list list \<Rightarrow> 'a list list \<Rightarrow> error + 'a list list" where
  "concat_total s m l =
     (if length s = length m \<and> length m = length l
      then Inr (map (\<lambda>(a, b, c). a @ b @ c) (zip s (zip m l)))
      else Inl InvalidArgumentError)"

definition YOLOv4_call ::
  "YOLOv4 \<Rightarrow> ('i \<Rightarrow> real list list list list \<times> real list list list list \<times> real list list list list) \<Rightarrow>
   'i \<Rightarrow> bool \<Rightarrow> error + real list list list" where
  "YOLOv4_call model heads x training =
     (case heads x of
        (r93, r101, r109) \<Rightarrow>
          (case Decode_apply (decode93 model) r93 training of
             Inl e \<Rightarrow> Inl e
           | Inr s_bboxes \<Rightarrow>
              (case Decode_apply (decode101 model) r101 training of
                 Inl e \<Rightarrow> Inl e
               | Inr m_bboxes \<Rightarrow>
                  (case Decode_apply (decode109 model) r109 training of
                     Inl e \<Rightarrow> Inl e
                   | Inr l_bboxes \<Rightarrow> concat_total s_bboxes m_bboxes l_bboxes))))"

section \<open>The TFLite wrapper (tflite/__init__.py)\<close>

text \<open>
  A NumPy array is its element type, its shape and its row-major buffer. Element
  values are real numbers whatever the element type (a \<open>uint8\<close> pixel is an integer
  between 0 and 255), so \<open>astype(np.float32)\<close> changes only the type tag.
\<close>

datatype dtype = np_float32 | np_uint8 | np_int8 | np_other

record ndarray =
  nd_dtype :: dtype
  nd_shape :: "nat list"
  nd_data :: "real list"

text \<open>One entry of \<open>get_input_details()\<close> or \<open>get_output_details()\<close>.\<close>

record tensor_details =
  td_index :: nat
  td_shape :: "int list"
  td_dtype :: dtype

text \<open>
  The interpreter of the TFLite runtime: its tensor store and \<open>graph\<close>, the
  computation of the loaded model that \<open>invoke\<close> runs on the store.
\<close>

record interpreter =
  input_details :: "tensor_details list"
  output_details :: "tensor_details list"
  tensors :: "nat \<rightharpoonup> ndarray"
  graph :: "(nat \<rightharpoonup> ndarray) \<Rightarrow> (nat \<rightharpoonup> ndarray)"

definition set_tensor :: "interpreter \<Rightarrow> nat \<Rightarrow> ndarray \<Rightarrow> interpreter" where
  "set_tensor it i x = it\<lparr>tensors := (tensors it)(i \<mapsto> x)\<rparr>"

definition invoke :: "interpreter \<Rightarrow> interpreter" where
  "invoke it = it\<lparr>tensors := graph it (tensors it)\<rparr>"

definition get_tensor :: "interpreter \<Rightarrow> nat \<Rightarrow> error + ndarray" where
  "get_tensor it i = (case tensors it i of None \<Rightarrow> Inl ValueError | Some a \<Rightarrow> Inr a)"

text \<open>The configuration object: the parsed network section and the yolo meta-layers.\<close>

record metayolo =
  beta_nms :: real
  mask :: "nat list"
  scale_x_y :: real
  metayolo_anchors :: "(real \<times> real) list"
  classes :: nat

record net_cfg =
  net_input_shape :: "int list"
  net_width :: int
  net_height :: int

record config =
  layer_count :: "string \<rightharpoonup> nat"
  net :: net_cfg
  find_metalayer :: "string \<Rightarrow> nat \<Rightarrow> metayolo"
  yolo_0 :: "metayolo option"
  yolo_tpu_0 :: "metayolo option"

text \<open>
  The methods that \<open>YOLOv4\<close> inherits from \<open>BaseClass\<close> or imports from the
  extension module, and the constructor of the runtime's interpreter (model path and,
  on the Edge TPU, the delegate library): they are parameters of the model.
\<close>

record externals =
  tflite_Interpreter :: "string \<Rightarrow> string option \<Rightarrow> error + interpreter"
  resize_image :: "ndarray \<Rightarrow> error + ndarray"
  yolo_layer :: "ndarray \<Rightarrow> ndarray \<Rightarrow> real list list \<Rightarrow> real \<Rightarrow> ndarray"
  yolo_diou_nms :: "ndarray \<Rightarrow> real \<Rightarrow> ndarray"
  fit_to_original :: "ndarray \<Rightarrow> nat \<Rightarrow> nat \<Rightarrow> ndarray"

text \<open>The attributes of the object after \<open>load_tflite\<close> (the source's \<open>self._x\<close> is \<open>self_x\<close>).\<close>

record tflite_YOLOv4 =
  self_config :: config
  self_tpu :: bool
  self_interpreter :: interpreter
  self_input_details :: tensor_details
  self_input_float :: bool
  self_output_details :: "tensor_details list"
  self_anhcors :: "real list list list"
  self_scale_x_y :: "real list"
  self_beta_nms :: "real option"

text \<open>
  The condition of the shape check, with Python's left-to-right evaluation and the
  short circuit of \<open>or\<close>: \<open>Inr True\<close> when some dimension differs.
\<close>

definition dim_differs :: "int list \<Rightarrow> nat \<Rightarrow> int list \<Rightarrow> nat \<Rightarrow> error + bool" where
  "dim_differs shp i cfg_shape j =
     (case getitem shp i of
        Inl e \<Rightarrow> Inl e
      | Inr a \<Rightarrow> (case getitem cfg_shape j of Inl e \<Rightarrow> Inl e | Inr b \<Rightarrow> Inr (a \<noteq> b)))"

definition shape_mismatch :: "int list \<Rightarrow> int list \<Rightarrow> error + bool" where
  "shape_mismatch shp cfg_shape =
     (case dim_differs shp 1 cfg_shape 0 of
        Inl e \<Rightarrow> Inl e
      | Inr True \<Rightarrow> Inr True
      | Inr False \<Rightarrow>
         (case dim_differs shp 2 cfg_shape 1 of
            Inl e \<Rightarrow> Inl e
          | Inr True \<Rightarrow> Inr True
          | Inr False \<Rightarrow> dim_differs shp 3 cfg_shape 2))"

definition shape_error :: error where
  "shape_error = RuntimeError
     ''YOLOv4: config.input_shape and tflite.input_details['shape'] do not match.''"

text \<open>One row of \<open>_anhcors[i]\<close>: anchor \<open>n\<close> of the mask, divided by the network size.\<close>

definition anchor_row :: "config \<Rightarrow> metayolo \<Rightarrow> nat \<Rightarrow> error + real list" where
  "anchor_row cfg m n =
     (case getitem (metayolo_anchors m) n of
        Inl e \<Rightarrow> Inl e
      | Inr (aw, ah) \<Rightarrow>
         if net_width (net cfg) = 0 then Inl ZeroDivisionError
         else if net_height (net cfg) = 0 then Inl ZeroDivisionError
         else Inr [aw / real_of_int (net_width (net cfg)), ah / real_of_int (net_height (net cfg))])"

text \<open>One pass of the loop over the yolo layers: its anchors, scale and \<open>beta_nms\<close>.\<close>

definition load_layer :: "config \<Rightarrow> string \<Rightarrow> nat \<Rightarrow> error + (real list list \<times> real \<times> real)" where
  "load_layer cfg layer_type i =
     (let metayolo = find_metalayer cfg layer_type i
      in case mapM (anchor_row cfg metayolo) (mask metayolo) of
           Inl e \<Rightarrow> Inl e
         | Inr rows \<Rightarrow> Inr (rows, scale_x_y metayolo, beta_nms metayolo))"

text \<open>
  \<open>load_tflite\<close>, from the lookup of \<open>layer_count["yolo_tpu"]\<close> to the loop over the
  yolo layers. \<open>allocate_tensors\<close> changes nothing that this model holds; the object
  exists only when no step has raised.
\<close>

definition load_tflite :: "externals \<Rightarrow> config \<Rightarrow> string \<Rightarrow> string \<Rightarrow> error + tflite_YOLOv4" where
  "load_tflite ext cfg tflite_path edgetpu_lib =
     (case layer_count cfg ''yolo_tpu'' of
        None \<Rightarrow> Inl KeyError
      | Some c \<Rightarrow>
         (let tpu = (c > 0) in
          case (if tpu then tflite_Interpreter ext tflite_path (Some edgetpu_lib)
                else tflite_Interpreter ext tflite_path None) of
            Inl e \<Rightarrow> Inl e
          | Inr it \<Rightarrow>
             (case getitem (input_details it) 0 of
                Inl e \<Rightarrow> Inl e
              | Inr details \<Rightarrow>
                 (case shape_mismatch (td_shape details) (net_input_shape (net cfg)) of
                    Inl e \<Rightarrow> Inl e
                  | Inr True \<Rightarrow> Inl shape_error
                  | Inr False \<Rightarrow>
                     (let layer_type = (if tpu then ''yolo_tpu'' else ''yolo'') in
                      case layer_count cfg layer_type of
                        None \<Rightarrow> Inl KeyError
                      | Some cnt \<Rightarrow>
                         (case mapM (load_layer cfg layer_type) [0..<cnt] of
                            Inl e \<Rightarrow> Inl e
                          | Inr layers \<Rightarrow>
                             Inr \<lparr>self_config = cfg, self_tpu = tpu, self_interpreter = it,
                                  self_input_details = details,
                                  self_input_float = (td_dtype details = np_float32),
                                  self_output_details = output_details it,
                                  self_anhcors = map fst layers,
                                  self_scale_x_y = map (\<lambda>l. fst (snd l)) layers,
                                  self_beta_nms = (if layers = [] then None
                                               else Some (snd (snd (last layers))))\<rparr>))))))"

text \<open>\<open>np.reshape(yolo, (1, -1, stride))\<close> and \<open>np.concatenate(candidates, axis=1)\<close>.\<close>

definition np_reshape_rows :: "nat \<Rightarrow> ndarray \<Rightarrow> error + ndarray" where
  "np_reshape_rows stride a =
     (if stride = 0 \<or> \<not> stride dvd length (nd_data a) then Inl ValueError
      else Inr (a\<lparr>nd_shape := [1, length (nd_data a) div stride, stride]\<rparr>))"

definition np_concatenate_axis1 :: "ndarray list \<Rightarrow> error + ndarray" where
  "np_concatenate_axis1 arrs =
     (case arrs of
        [] \<Rightarrow> Inl ValueError
      | a # _ \<Rightarrow>
         if \<forall>b\<in>set arrs. length (nd_shape b) = 3 \<and> nd_shape b ! 0 = 1
              \<and> nd_shape b ! 2 = nd_shape a ! 2
         then Inr \<lparr>nd_dtype = nd_dtype a,
                   nd_shape = [1, sum_list (map (\<lambda>b. nd_shape b ! 1) arrs), nd_shape a ! 2],
                   nd_data = concat (map nd_data arrs)\<rparr>
         else Inl ValueError)"

definition candidates_of :: "externals \<Rightarrow> tflite_YOLOv4 \<Rightarrow> ndarray list \<Rightarrow> error + ndarray list" where
  "candidates_of ext self yolos =
     (if self_tpu self then
        (let num_yolo = length yolos div 2 in
         case mapM (\<lambda>i. case getitem (self_anhcors self) i of
                          Inl e \<Rightarrow> Inl e
                        | Inr a \<Rightarrow> (case getitem (self_scale_x_y self) i of
                                      Inl e \<Rightarrow> Inl e
                                    | Inr sc \<Rightarrow>
                                       Inr (yolo_layer ext (yolos ! (2 * i)) (yolos ! (2 * i + 1)) a sc)))
                   [0..<num_yolo] of
           Inl e \<Rightarrow> Inl e
         | Inr yolos' \<Rightarrow>
            (case yolo_tpu_0 (self_config self) of
               None \<Rightarrow> Inl AttributeError
             | Some m \<Rightarrow> mapM (np_reshape_rows (5 + classes m)) yolos'))
      else
        (case yolo_0 (self_config self) of
           None \<Rightarrow> Inl AttributeError
         | Some m \<Rightarrow> mapM (np_reshape_rows (5 + classes m)) yolos))"

text \<open>
  \<open>_predict\<close> returns its result together with the object, whose interpreter has
  received the input and run; an exception leaves the interpreter as it was then.
\<close>

definition predict_private :: "externals \<Rightarrow> tflite_YOLOv4 \<Rightarrow> ndarray \<Rightarrow> (error + ndarray) \<times> tflite_YOLOv4" where
  "predict_private ext self x =
     (let it = invoke (set_tensor (self_interpreter self) (td_index (self_input_details self)) x);
          self' = self\<lparr>self_interpreter := it\<rparr>
      in case mapM (\<lambda>od. get_tensor it (td_index od)) (self_output_details self) of
           Inl e \<Rightarrow> (Inl e, self')
         | Inr yolos \<Rightarrow>
            (case candidates_of ext self yolos of
               Inl e \<Rightarrow> (Inl e, self')
             | Inr candidates \<Rightarrow> (np_concatenate_axis1 candidates, self')))"

text \<open>\<open>a[np.newaxis, ...]\<close>, \<open>a.astype(np.float32) / 255\<close> and \<open>a[0]\<close>.\<close>

definition newaxis :: "ndarray \<Rightarrow> ndarray" where
  "newaxis a = a\<lparr>nd_shape := 1 # nd_shape a\<rparr>"

definition astype_float32 :: "ndarray \<Rightarrow> ndarray" where
  "astype_float32 a = a\<lparr>nd_dtype := np_float32\<rparr>"

definition true_divide :: "ndarray \<Rightarrow> real \<Rightarrow> ndarray" where
  "true_divide a c = a\<lparr>nd_data := map (\<lambda>v. v / c) (nd_data a)\<rparr>"

definition first_item :: "ndarray \<Rightarrow> error + ndarray" where
  "first_item a =
     (case nd_shape a of
        [] \<Rightarrow> Inl IndexError
      | n # rest \<Rightarrow>
         if n = 0 then Inl IndexError
         else Inr (a\<lparr>nd_shape := rest, nd_data := take (prod_list rest) (nd_data a)\<rparr>))"

definition predict :: "externals \<Rightarrow> tflite_YOLOv4 \<Rightarrow> ndarray \<Rightarrow> (error + ndarray) \<times> tflite_YOLOv4" where
  "predict ext self frame =
     (case nd_shape frame of
        [height, width, _] \<Rightarrow>
          (case resize_image ext frame of
             Inl e \<Rightarrow> (Inl e, self)
           | Inr image_data \<Rightarrow>
              (let (r, self') =
                     (if self_input_float self
                      then predict_private ext self (true_divide (astype_float32 (newaxis image_data)) 255)
                      else predict_private ext self (newaxis image_data))
               in case r of
                    Inl e \<Rightarrow> (Inl e, self')
                  | Inr batch \<Rightarrow>
                     (case first_item batch of
                        Inl e \<Rightarrow> (Inl e, self')
                      | Inr candidates \<Rightarrow>
                         (case self_beta_nms self' of
                            None \<Rightarrow> (Inl AttributeError, self')
                          | Some beta \<Rightarrow>
                             (let pred_bboxes = yolo_diou_nms ext candidates beta
                              in (Inr (fit_to_original ext pred_bboxes height width), self'))))))
      | _ \<Rightarrow> (Inl ValueError, self))"

section \<open>Shapes and accessors used in the statements\<close>

text \<open>A tensor of shape \<open>(a, b, c)\<close>.\<close>

definition has_shape3 :: "nat \<Rightarrow> nat \<Rightarrow> nat \<Rightarrow> 'a list list list \<Rightarrow> bool" where
  "has_shape3 a b c x \<longleftrightarrow>
     length x = a \<and> (\<forall>r\<in>set x. length r = b \<and> (\<forall>v\<in>set r. length v = c))"

text \<open>Candidate row \<open>idx\<close> of batch element \<open>b\<close> of a result of \<open>call\<close>, when there is one.\<close>

definition candidate :: "error + real list list list \<Rightarrow> nat \<Rightarrow> nat \<Rightarrow> real list option" where
  "candidate r b idx =
     (case r of
        Inl _ \<Rightarrow> None
      | Inr out \<Rightarrow> if b < length out \<and> idx < length (out ! b) then Some (out ! b ! idx) else None)"

text \<open>
  Lines 75 to 96 of \<open>Decode.call\<close> as one function of the reshaped tensor, the grid
  and the anchors: the expression that \<open>call_sample\<close> computes between its two reshapes.
\<close>

definition decode_body ::
  "real \<Rightarrow> real \<Rightarrow> nat \<Rightarrow> bool \<Rightarrow> real list list \<Rightarrow> real list list list list \<Rightarrow>
   real list list list list \<Rightarrow> real list list list list" where
  "decode_body cw s c tr anch grid x0 =
     concatenate_last
       [map4 (\<lambda>v. v * cw) (add4 (map4 (\<lambda>v. (v - 0.5) * s + 0.5) (map4 sigmoid (slice_last 0 2 x0))) grid),
        map (map (\<lambda>cell. map2 (map2 (*)) anch cell)) (map4 exp (slice_last 2 2 x0)),
        (if \<not> tr then map4 sigmoid (slice_last 4 1 x0) else slice_last 4 1 x0),
        (if \<not> tr then map4 sigmoid (slice_last 5 c x0) else slice_last 5 c x0)]"

section \<open>Example objects\<close>

text \<open>
  A configuration with one yolo layer of one class on a 2 by 2 network input, an
  interpreter with one input of a given element type and shape and two outputs of 18
  values, and stand-ins for the inherited methods. The theorems below are applied to
  them.
\<close>

definition example_metayolo :: metayolo where
  "example_metayolo =
     \<lparr>beta_nms = 6 / 10, mask = [0], scale_x_y = 105 / 100,
      metayolo_anchors = [(12, 16)], classes = 1\<rparr>"

definition example_config :: config where
  "example_config =
     \<lparr>layer_count = [''yolo'' \<mapsto> 1, ''yolo_tpu'' \<mapsto> 0],
      net = \<lparr>net_input_shape = [2, 2, 3], net_width = 2, net_height = 2\<rparr>,
      find_metalayer = (\<lambda>_ _. example_metayolo),
      yolo_0 = Some example_metayolo,
      yolo_tpu_0 = Some example_metayolo\<rparr>"

definition example_output :: ndarray where
  "example_output = \<lparr>nd_dtype = np_float32, nd_shape = [1, 1, 1, 18], nd_data = replicate 18 0\<rparr>"

definition example_interpreter :: "dtype \<Rightarrow> int list \<Rightarrow> interpreter" where
  "example_interpreter dt shp =
     \<lparr>input_details = [\<lparr>td_index = 0, td_shape = shp, td_dtype = dt\<rparr>],
      output_details = [\<lparr>td_index = 1, td_shape = [1, 1, 1, 18], td_dtype = np_float32\<rparr>,
                        \<lparr>td_index = 2, td_shape = [1, 1, 1, 18], td_dtype = np_float32\<rparr>],
      tensors = Map.empty,
      graph = (\<lambda>t. t(1 \<mapsto> example_output, 2 \<mapsto> example_output))\<rparr>"

definition example_image :: ndarray where
  "example_image = \<lparr>nd_dtype = np_uint8, nd_shape = [2, 2, 3], nd_data = replicate 12 255\<rparr>"

definition example_externals :: "dtype \<Rightarrow> int list \<Rightarrow> externals" where
  "example_externals dt shp =
     \<lparr>tflite_Interpreter = (\<lambda>_ _. Inr (example_interpreter dt shp)),
      resize_image = (\<lambda>_. Inr example_image),
      yolo_layer = (\<lambda>a _ _ _. a),
      yolo_diou_nms = (\<lambda>c _. c),
      fit_to_original = (\<lambda>p _ _. p)\<rparr>"

definition example_self :: "bool \<Rightarrow> tflite_YOLOv4" where
  "example_self tpu =
     \<lparr>self_config = example_config, self_tpu = tpu,
      self_interpreter = example_interpreter np_float32 [1, 2, 2, 3],
      self_input_details = \<lparr>td_index = 0, td_shape = [1, 2, 2, 3], td_dtype = np_float32\<rparr>,
      self_input_float = True,
      self_output_details = output_details (example_interpreter np_float32 [1, 2, 2, 3]),
      self_anhcors = [[[6, 8]]], self_scale_x_y = [105 / 100], self_beta_nms = Some (6 / 10)\<rparr>"

section \<open>Reshaping and flattening\<close>

lemma length_concat_uniform:
  "\<forall>xs\<in>set xss. length xs = n \<Longrightarrow> length (concat xss) = length xss * n"
  by (induction xss) auto

lemma take_drop_concat_uniform:
  "\<forall>xs\<in>set xss. length xs = n \<Longrightarrow> i < length xss \<Longrightarrow>
     take n (drop (i * n) (concat xss)) = xss ! i"
proof (induction xss arbitrary: i)
  case Nil
  then show ?case by simp
next
  case (Cons ys xss)
  show ?case
  proof (cases i)
    case 0
    with Cons.prems show ?thesis by simp
  next
    case (Suc i')
    with Cons.prems have "take n (drop (i' * n) (concat xss)) = xss ! i'"
      by (intro Cons.IH) auto
    with Suc Cons.prems show ?thesis by simp
  qed
qed

lemma reshape2_concat:
  "\<forall>xs\<in>set xss. length xs = n \<Longrightarrow> length xss = m \<Longrightarrow> reshape2 m n (concat xss) = xss"
  by (auto simp: reshape2_def list_eq_iff_nth_eq take_drop_concat_uniform)

lemma concat_concat_map: "concat (concat xsss) = concat (map concat xsss)"
  by (induction xsss) auto

lemma nth_concat_uniform:
  "\<forall>xs\<in>set xss. length xs = n \<Longrightarrow> i < length xss \<Longrightarrow> c < n \<Longrightarrow>
     concat xss ! (i * n + c) = xss ! i ! c"
proof -
  assume a: "\<forall>xs\<in>set xss. length xs = n" "i < length xss" "c < n"
  have "xss ! i ! c = take n (drop (i * n) (concat xss)) ! c"
    using a by (simp add: take_drop_concat_uniform)
  also have "\<dots> = concat xss ! (i * n + c)"
  proof -
    have "i * n + c < length (concat xss)"
    proof -
      have "i * n + c < Suc i * n" using a(3) by simp
      also have "\<dots> \<le> length xss * n" using a(2) by (simp only: mult_le_mono1 Suc_leI)
      finally show ?thesis using length_concat_uniform[OF a(1)] by simp
    qed
    then show ?thesis using a(3) by simp
  qed
  finally show ?thesis by simp
qed

lemma reshape4_concat:
  assumes "has_shape3 g1 g2 (na * n) x"
  shows "reshape4 g1 g2 na n (concat (concat x)) = map (map (reshape2 na n)) x"
proof -
  have rows: "\<forall>r\<in>set (map concat x). length r = g2 * na * n"
    using assms by (auto simp: has_shape3_def length_concat_uniform[where n="na * n"] simp del: length_concat)
  have "reshape2 g1 (g2 * na * n) (concat (concat x)) = map concat x"
    unfolding concat_concat_map using rows assms
    by (intro reshape2_concat) (auto simp: has_shape3_def)
  moreover have "\<forall>r\<in>set x. reshape2 g2 (na * n) (concat r) = r"
    using assms by (auto simp: has_shape3_def intro!: reshape2_concat)
  ultimately show ?thesis
    by (simp add: reshape4_def)
qed

lemma mapM_Inr:
  "\<forall>x\<in>set xs. f x = Inr (h x) \<Longrightarrow> mapM f xs = Inr (map h xs)"
  by (induction xs) auto

lemma build_fields:
  "reshape0_target (build d shp) = [shp ! 1, shp ! 1, 3, 5 + num_classes d]"
  "reshape1_target (build d shp) = [shp ! 1 * (shp ! 1) * 3, 5 + num_classes d]"
  "anchors (build d shp) = anchors d"
  "cell_width (build d shp) = cell_width d"
  "num_classes (build d shp) = num_classes d"
  "xyscale (build d shp) = xyscale d"
  by (simp_all add: build_def Let_def)

lemma len5_cases:
  assumes "length v = 5 + c"
  obtains v0 v1 v2 v3 v4 rest where "v = v0 # v1 # v2 # v3 # v4 # rest" "length rest = c"
proof -
  from assms obtain v0 r0 where 0: "v = v0 # r0" "length r0 = 4 + c" by (cases v) auto
  from 0 obtain v1 r1 where 1: "r0 = v1 # r1" "length r1 = 3 + c" by (cases r0) auto
  from 1 obtain v2 r2 where 2: "r1 = v2 # r2" "length r2 = 2 + c" by (cases r1) auto
  from 2 obtain v3 r3 where 3: "r2 = v3 # r3" "length r3 = 1 + c" by (cases r2) auto
  from 3 obtain v4 r4 where 4: "r3 = v4 # r4" "length r4 = c" by (cases r3) auto
  show ?thesis using that 0 1 2 3 4 by simp
qed

lemma len2_cases:
  assumes "length a = 2"
  obtains a0 a1 where "a = [a0, a1]"
proof -
  from assms obtain a0 r0 where 0: "a = a0 # r0" "length r0 = 1" by (cases a) auto
  from 0 obtain a1 r1 where 1: "r0 = a1 # r1" "length r1 = 0" by (cases r0) auto
  show ?thesis using that 0 1 by simp
qed

lemma row_parts:
  assumes "length v = 5 + c" "length a = 2"
  shows "map (\<lambda>u. u * cw) (map2 (+) (map (\<lambda>u. (u - 0.5) * s + 0.5) (map sigmoid (take 2 (drop 0 v)))) [real j, real i])
         @ map2 (*) a (map exp (take 2 (drop 2 v)))
         @ (if \<not> tr then map sigmoid (take 1 (drop 4 v)) else take 1 (drop 4 v))
         @ (if \<not> tr then map sigmoid (take c (drop 5 v)) else take c (drop 5 v))
       = [((sigmoid (v ! 0) - 0.5) * s + 0.5 + real j) * cw,
          ((sigmoid (v ! 1) - 0.5) * s + 0.5 + real i) * cw,
          a ! 0 * exp (v ! 2), a ! 1 * exp (v ! 3)]
         @ (if tr then drop 4 v else map sigmoid (drop 4 v))"
proof -
  from assms(1) obtain v0 v1 v2 v3 v4 rest
    where v: "v = v0 # v1 # v2 # v3 # v4 # rest" "length rest = c"
    by (rule len5_cases)
  from assms(2) obtain a0 a1 where a: "a = [a0, a1]" by (rule len2_cases)
  show ?thesis by (simp add: v a numeral_2_eq_2 numeral_3_eq_3 eval_nat_numeral)
qed

lemma map2_same: "map2 f (map g xs) (map h xs) = map (\<lambda>x. f (g x) (h x)) xs"
  by (induction xs) auto

lemma stack_meshgrid:
  "stack_last (meshgrid xs ys) = map (\<lambda>y. map (\<lambda>x. [x, y]) xs) ys"
proof -
  have inner: "\<And>y. map2 (\<lambda>a b. [a, b]) xs (map (\<lambda>_. y) xs) = map (\<lambda>x. [x, y]) xs"
    using map2_same [of "\<lambda>a b. [a, b]" "\<lambda>x. x" xs] by simp
  have "stack_last (meshgrid xs ys)
        = map (\<lambda>y. map2 (\<lambda>a b. [a, b]) xs (map (\<lambda>_. y) xs)) ys"
    unfolding stack_last_def meshgrid_def fst_conv snd_conv
    by (rule map2_same)
  then show ?thesis by (simp only: inner)
qed

lemma build_xy_grid:
  "xy_grid (build d shp) =
     Some [map (\<lambda>i. map (\<lambda>j. replicate 3 [real j, real i]) [0..<shp ! 1]) [0..<shp ! 1]]"
  by (simp add: build_def Let_def stack_meshgrid tf_range_def expand_1gg12_def
      tile_axis3_def map4_def comp_def)

lemma decode_body_nth:
  assumes x0: "length x0 = g" "\<forall>i<g. length (x0 ! i) = g"
      "\<forall>i<g. \<forall>j<g. length (x0 ! i ! j) = 3"
      "\<forall>i<g. \<forall>j<g. \<forall>k<3. length (x0 ! i ! j ! k) = 5 + c"
    and an: "length anch = 3" "\<forall>k<3. length (anch ! k) = 2"
    and G: "G = map (\<lambda>i. map (\<lambda>j. replicate 3 [real j, real i]) [0..<g]) [0..<g]"
    and y: "y = decode_body cw s c tr anch G x0"
  shows "length y = g"
    and "i < g \<Longrightarrow> length (y ! i) = g"
    and "i < g \<Longrightarrow> j < g \<Longrightarrow> length (y ! i ! j) = 3"
    and "i < g \<Longrightarrow> j < g \<Longrightarrow> k < 3 \<Longrightarrow>
         y ! i ! j ! k =
           [((sigmoid (x0 ! i ! j ! k ! 0) - 0.5) * s + 0.5 + real j) * cw,
            ((sigmoid (x0 ! i ! j ! k ! 1) - 0.5) * s + 0.5 + real i) * cw,
            anch ! k ! 0 * exp (x0 ! i ! j ! k ! 2), anch ! k ! 1 * exp (x0 ! i ! j ! k ! 3)]
           @ (if tr then drop 4 (x0 ! i ! j ! k) else map sigmoid (drop 4 (x0 ! i ! j ! k)))"
proof -
  show l1: "length y = g"
    by (cases tr) (simp_all add: y decode_body_def append_last_def map4_def add4_def slice_last_def x0 G)
  show l2: "length (y ! i) = g" if "i < g"
    using that
    by (cases tr) (simp_all add: y decode_body_def append_last_def map4_def add4_def slice_last_def x0 G)
  show l3: "length (y ! i ! j) = 3" if "i < g" "j < g"
    using that
    by (cases tr) (simp_all add: y decode_body_def append_last_def map4_def add4_def slice_last_def x0 G an)
  show "y ! i ! j ! k =
           [((sigmoid (x0 ! i ! j ! k ! 0) - 0.5) * s + 0.5 + real j) * cw,
            ((sigmoid (x0 ! i ! j ! k ! 1) - 0.5) * s + 0.5 + real i) * cw,
            anch ! k ! 0 * exp (x0 ! i ! j ! k ! 2), anch ! k ! 1 * exp (x0 ! i ! j ! k ! 3)]
           @ (if tr then drop 4 (x0 ! i ! j ! k) else map sigmoid (drop 4 (x0 ! i ! j ! k)))"
    if ijk: "i < g" "j < g" "k < 3"
  proof -
    let ?v = "x0 ! i ! j ! k"
    have "y ! i ! j ! k =
       map (\<lambda>u. u * cw) (map2 (+) (map (\<lambda>u. (u - 0.5) * s + 0.5) (map sigmoid (take 2 (drop 0 ?v)))) [real j, real i])
         @ map2 (*) (anch ! k) (map exp (take 2 (drop 2 ?v)))
         @ (if \<not> tr then map sigmoid (take 1 (drop 4 ?v)) else take 1 (drop 4 ?v))
         @ (if \<not> tr then map sigmoid (take c (drop 5 ?v)) else take c (drop 5 ?v))"
      using ijk
      by (cases tr) (simp_all add: y decode_body_def append_last_def map4_def add4_def slice_last_def x0 G an)
    also have "\<dots> = [((sigmoid (?v ! 0) - 0.5) * s + 0.5 + real j) * cw,
            ((sigmoid (?v ! 1) - 0.5) * s + 0.5 + real i) * cw,
            anch ! k ! 0 * exp (?v ! 2), anch ! k ! 1 * exp (?v ! 3)]
           @ (if tr then drop 4 ?v else map sigmoid (drop 4 ?v))"
      by (rule row_parts) (simp_all add: x0 an ijk)
    finally show ?thesis .
  qed
qed

lemma mapM_broadcast_dim:
  "\<forall>a\<in>set as. length a = n \<Longrightarrow> mapM (broadcast_dim n) as = Inr as"
  using mapM_Inr [of as "broadcast_dim n" "\<lambda>a. a"] by (simp add: broadcast_dim_def)

lemma has_shape3_nth:
  assumes "has_shape3 a b c x"
  shows "length x = a" "i < a \<Longrightarrow> length (x ! i) = b"
    "i < a \<Longrightarrow> j < b \<Longrightarrow> length (x ! i ! j) = c"
proof -
  show "length x = a" using assms by (simp add: has_shape3_def)
  show "length (x ! i) = b" if "i < a"
    using assms that by (simp add: has_shape3_def)
  show "length (x ! i ! j) = c" if "i < a" "j < b"
  proof -
    have xi: "x ! i \<in> set x" using assms that by (simp add: has_shape3_def)
    then have "length (x ! i) = b" "\<forall>v\<in>set (x ! i). length v = c"
      using assms by (auto simp: has_shape3_def)
    then show ?thesis using that by simp
  qed
qed

lemma has_shape3_length_flat:
  assumes "has_shape3 a b c x"
  shows "length (concat (concat x)) = a * b * c"
proof -
  have "\<forall>v\<in>set (concat x). length v = c"
    using assms by (auto simp: has_shape3_def)
  then have "length (concat (concat x)) = length (concat x) * c"
    by (rule length_concat_uniform)
  moreover have "length (concat x) = length x * b"
    using assms by (intro length_concat_uniform) (auto simp: has_shape3_def)
  ultimately show ?thesis using assms by (simp add: has_shape3_def)
qed

lemma reshape2_nth:
  "k < m \<Longrightarrow> reshape2 m n flat ! k = take n (drop (k * n) flat)"
  "length (reshape2 m n flat) = m"
  by (simp_all add: reshape2_def)

lemma has_shape3_I:
  assumes "length y = a" "\<And>i. i < a \<Longrightarrow> length (y ! i) = b"
    "\<And>i j. i < a \<Longrightarrow> j < b \<Longrightarrow> length (y ! i ! j) = c"
  shows "has_shape3 a b c y"
  unfolding has_shape3_def using assms
  by (metis in_set_conv_nth)

lemma nth_concat_concat:
  assumes "has_shape3 a b c y" "i < a" "j < b" "k < c"
  shows "concat (concat y) ! ((i * b + j) * c + k) = y ! i ! j ! k"
proof -
  have u1: "\<forall>r\<in>set y. length r = b" using assms(1) by (auto simp: has_shape3_def)
  have u2: "\<forall>v\<in>set (concat y). length v = c" using assms(1) by (auto simp: has_shape3_def)
  have la: "length y = a" using assms(1) by (simp add: has_shape3_def)
  have len: "length (concat y) = a * b"
    using length_concat_uniform [OF u1] la by simp
  have "i * b + j < Suc i * b" using assms(3) by simp
  also have "\<dots> \<le> a * b" using assms(2) by (simp only: mult_le_mono1 Suc_leI)
  finally have lt: "i * b + j < length (concat y)" using len by simp
  have "concat (concat y) ! ((i * b + j) * c + k) = concat y ! (i * b + j) ! k"
    using u2 lt assms(4) by (rule nth_concat_uniform)
  also have "concat y ! (i * b + j) = y ! i ! j"
    using u1 assms(2,3) la by (intro nth_concat_uniform) auto
  finally show ?thesis .
qed

lemma call_sample_unfold:
  assumes "reshape0_target d' = [g1, g2, na, n]" "xy_grid d' = Some [G]"
    "reshape1_target d' = [m1, n1]"
    "length (concat (concat x)) = g1 * g2 * na * n"
    "mapM (broadcast_dim 2) (anchors d') = Inr ar" "broadcast_dim na ar = Inr anch"
    "y = decode_body (real_of_int (cell_width d')) (xyscale d') (num_classes d') tr anch G
           (reshape4 g1 g2 na n (concat (concat x)))"
    "length (concat (concat (concat y))) = m1 * n1"
  shows "call_sample d' tr x = Inr (reshape2 m1 n1 (concat (concat (concat y))))"
  using assms(4,8) unfolding assms(7)
  by (cases tr)
     (simp_all add: call_sample_def Let_def decode_body_def assms(1,2,3,5,6)
        del: concatenate_last.simps)

lemma call_sample_built:
  assumes shape: "has_shape3 g g (3 * (5 + num_classes d)) x"
    and an: "length (anchors d) = 3" "\<forall>a\<in>set (anchors d). length a = 2"
    and shp: "shp ! 1 = g"
  shows "\<exists>out. call_sample (build d shp) tr x = Inr out \<and> length out = g * g * 3 \<and>
           (\<forall>r\<in>set out. length r = 5 + num_classes d) \<and>
           (\<forall>i<g. \<forall>j<g. \<forall>k<3. out ! ((i * g + j) * 3 + k) =
             (let v = take (5 + num_classes d) (drop (k * (5 + num_classes d)) (x ! i ! j)) in
              [((sigmoid (v ! 0) - 0.5) * xyscale d + 0.5 + real j) * real_of_int (cell_width d),
               ((sigmoid (v ! 1) - 0.5) * xyscale d + 0.5 + real i) * real_of_int (cell_width d),
               anchors d ! k ! 0 * exp (v ! 2), anchors d ! k ! 1 * exp (v ! 3)]
              @ (if tr then drop 4 v else map sigmoid (drop 4 v))))"
proof -
  let ?n = "5 + num_classes d"
  let ?G = "map (\<lambda>i. map (\<lambda>j. replicate 3 [real j, real i]) [0..<g]) [0..<g]"
  let ?x0 = "map (map (reshape2 3 ?n)) x"
  define y where "y = decode_body (real_of_int (cell_width d)) (xyscale d) (num_classes d) tr (anchors d) ?G ?x0"
  have x0: "length ?x0 = g" "\<And>i. i < g \<Longrightarrow> length (?x0 ! i) = g"
      "\<And>i j. i < g \<Longrightarrow> j < g \<Longrightarrow> length (?x0 ! i ! j) = 3"
    using has_shape3_nth [OF shape] by (simp_all add: reshape2_nth)
  have x0v: "?x0 ! i ! j ! k = take ?n (drop (k * ?n) (x ! i ! j))"
    if "i < g" "j < g" "k < 3" for i j k
    using has_shape3_nth [OF shape] that by (simp add: reshape2_nth)
  have x0l: "length (?x0 ! i ! j ! k) = ?n" if "i < g" "j < g" "k < 3" for i j k
  proof -
    have "length (x ! i ! j) = 3 * ?n" using has_shape3_nth(3) [OF shape] that by simp
    moreover have "k * ?n + ?n \<le> 3 * ?n"
    proof -
      have "Suc k * ?n \<le> 3 * ?n" using that(3) by (simp only: mult_le_mono1 Suc_leI)
      then show ?thesis by simp
    qed
    ultimately show ?thesis unfolding x0v [OF that] by simp
  qed
  have x0': "\<forall>i<g. length (?x0 ! i) = g" "\<forall>i<g. \<forall>j<g. length (?x0 ! i ! j) = 3"
    "\<forall>i<g. \<forall>j<g. \<forall>k<3. length (?x0 ! i ! j ! k) = ?n"
    using x0 x0l by blast+
  have an': "\<forall>k<3. length (anchors d ! k) = 2" using an by simp
  note body = decode_body_nth [OF x0(1) x0' an(1) an' refl y_def]
  have b4: "y ! i ! j ! k =
           [((sigmoid (?x0 ! i ! j ! k ! 0) - 0.5) * xyscale d + 0.5 + real j) * real_of_int (cell_width d),
            ((sigmoid (?x0 ! i ! j ! k ! 1) - 0.5) * xyscale d + 0.5 + real i) * real_of_int (cell_width d),
            anchors d ! k ! 0 * exp (?x0 ! i ! j ! k ! 2), anchors d ! k ! 1 * exp (?x0 ! i ! j ! k ! 3)]
           @ (if tr then drop 4 (?x0 ! i ! j ! k) else map sigmoid (drop 4 (?x0 ! i ! j ! k)))"
    if "i < g" "j < g" "k < 3" for i j k
    using that by (rule body(4))
  have ysh: "has_shape3 g g 3 y"
    by (rule has_shape3_I) (simp_all add: body(1-3))
  have rowlen: "length (y ! i ! j ! k) = ?n" if "i < g" "j < g" "k < 3" for i j k
    using b4 [OF that] x0l [OF that] by (cases tr) simp_all
  have rows: "\<forall>r\<in>set (concat (concat y)). length r = ?n"
  proof
    fix r assume "r \<in> set (concat (concat y))"
    then obtain cell row where "r \<in> set cell" "cell \<in> set row" "row \<in> set y" by auto
    then obtain i j k where "i < length y" "row = y ! i" "j < length row" "cell = row ! j"
      "k < length cell" "r = cell ! k"
      by (metis in_set_conv_nth)
    then show "length r = ?n" using rowlen [of i j k] body(1-3) by simp
  qed
  have ylen: "length (concat (concat y)) = g * g * 3"
    using has_shape3_length_flat [OF ysh] .
  have yflat: "length (concat (concat (concat y))) = g * g * 3 * ?n"
    using length_concat_uniform [OF rows] ylen by simp
  have resh: "reshape2 (g * g * 3) ?n (concat (concat (concat y))) = concat (concat y)"
    using rows ylen by (rule reshape2_concat)
  have bd: "broadcast_dim 3 (anchors d) = Inr (anchors d)"
    by (simp add: broadcast_dim_def an(1))
  have f1: "reshape0_target (build d shp) = [g, g, 3, ?n]"
    and f2: "xy_grid (build d shp) = Some [?G]"
    and f3: "reshape1_target (build d shp) = [g * g * 3, ?n]"
    unfolding shp [symmetric] by (rule build_fields build_xy_grid)+
  have fl: "length (concat (concat x)) = g * g * 3 * ?n"
    using has_shape3_length_flat [OF shape] by (simp only: mult.assoc)
  have yd: "y = decode_body (real_of_int (cell_width (build d shp))) (xyscale (build d shp))
      (num_classes (build d shp)) tr (anchors d) ?G
      (reshape4 g g 3 ?n (concat (concat x)))"
    unfolding y_def build_fields reshape4_concat [OF shape] ..
  have "call_sample (build d shp) tr x
        = Inr (reshape2 (g * g * 3) ?n (concat (concat (concat y))))"
    using f1 f2 f3 fl _ bd yd yflat
    by (rule call_sample_unfold) (simp only: build_fields mapM_broadcast_dim [OF an(2)])
  then have cs: "call_sample (build d shp) tr x = Inr (concat (concat y))"
    by (simp only: resh)
  have "concat (concat y) ! ((i * g + j) * 3 + k) =
          (let v = take ?n (drop (k * ?n) (x ! i ! j)) in
              [((sigmoid (v ! 0) - 0.5) * xyscale d + 0.5 + real j) * real_of_int (cell_width d),
               ((sigmoid (v ! 1) - 0.5) * xyscale d + 0.5 + real i) * real_of_int (cell_width d),
               anchors d ! k ! 0 * exp (v ! 2), anchors d ! k ! 1 * exp (v ! 3)]
              @ (if tr then drop 4 v else map sigmoid (drop 4 v)))"
    if ijk: "i < g" "j < g" "k < 3" for i j k
  proof -
    have "concat (concat y) ! ((i * g + j) * 3 + k) = y ! i ! j ! k"
      using ysh ijk by (rule nth_concat_concat)
    then show ?thesis
      using b4 [OF ijk] x0v [OF ijk] by (simp add: Let_def)
  qed
  then show ?thesis
    using cs ylen rows by blast
qed

lemma mapM_ex:
  "\<forall>x\<in>set xs. \<exists>y. f x = Inr y \<and> P x y \<Longrightarrow>
   \<exists>ys. mapM f xs = Inr ys \<and> length ys = length xs \<and> (\<forall>b<length xs. P (xs ! b) (ys ! b))"
proof (induction xs)
  case Nil
  then show ?case by simp
next
  case (Cons x xs)
  from Cons.prems obtain y where y: "f x = Inr y" "P x y" by auto
  from Cons obtain ys where ys: "mapM f xs = Inr ys" "length ys = length xs"
    "\<forall>b<length xs. P (xs ! b) (ys ! b)" by auto
  have "\<forall>b<length (x # xs). P ((x # xs) ! b) ((y # ys) ! b)"
    using y(2) ys(3) by (auto simp: nth_Cons split: nat.splits)
  then show ?case using y(1) ys(1,2) by simp
qed

lemma raw_nth:
  assumes "length cell = 3 * n" "k < 3" "c < n"
  shows "take n (drop (k * n) cell) ! c = cell ! (k * n + c)"
proof -
  have "Suc k \<le> 3" using assms(2) by simp
  then have "Suc k * n \<le> 3 * n" by (rule mult_le_mono1)
  then have "k * n + n \<le> 3 * n" by simp
  then have "k * n + c < length cell" using assms(1,3) by linarith
  then show ?thesis using assms(3) by simp
qed

lemma raw_drop:
  assumes "length cell = 3 * (5 + c)" "k < 3"
  shows "drop 4 (take (5 + c) (drop (k * (5 + c)) cell)) = take (1 + c) (drop (k * (5 + c) + 4) cell)"
  by (simp add: drop_take add.commute)

lemma call_row:
  assumes shape: "\<forall>x\<in>set xs. has_shape3 g g (3 * (5 + num_classes d)) x"
    and an: "length (anchors d) = 3" "\<forall>a\<in>set (anchors d). length a = 2"
    and shp: "shp ! 1 = g"
    and b: "b < length xs" and ijk: "i < g" "j < g" "k < 3"
  shows "\<exists>out. call (build d shp) xs tr = Inr out \<and> length out = length xs \<and>
           length (out ! b) = g * g * 3 \<and> (\<forall>r\<in>set (out ! b). length r = 5 + num_classes d) \<and>
           out ! b ! ((i * g + j) * 3 + k) =
             [((sigmoid (xs ! b ! i ! j ! (k * (5 + num_classes d))) - 0.5) * xyscale d + 0.5 + real j)
                * real_of_int (cell_width d),
              ((sigmoid (xs ! b ! i ! j ! (k * (5 + num_classes d) + 1)) - 0.5) * xyscale d + 0.5 + real i)
                * real_of_int (cell_width d),
              anchors d ! k ! 0 * exp (xs ! b ! i ! j ! (k * (5 + num_classes d) + 2)),
              anchors d ! k ! 1 * exp (xs ! b ! i ! j ! (k * (5 + num_classes d) + 3))]
             @ (if tr then take (1 + num_classes d) (drop (k * (5 + num_classes d) + 4) (xs ! b ! i ! j))
                else map sigmoid (take (1 + num_classes d) (drop (k * (5 + num_classes d) + 4) (xs ! b ! i ! j))))"
proof -
  let ?n = "5 + num_classes d"
  let ?P = "\<lambda>x out. length out = g * g * 3 \<and>
           (\<forall>r\<in>set out. length r = ?n) \<and>
           (\<forall>i<g. \<forall>j<g. \<forall>k<3. out ! ((i * g + j) * 3 + k) =
             (let v = take ?n (drop (k * ?n) (x ! i ! j)) in
              [((sigmoid (v ! 0) - 0.5) * xyscale d + 0.5 + real j) * real_of_int (cell_width d),
               ((sigmoid (v ! 1) - 0.5) * xyscale d + 0.5 + real i) * real_of_int (cell_width d),
               anchors d ! k ! 0 * exp (v ! 2), anchors d ! k ! 1 * exp (v ! 3)]
              @ (if tr then drop 4 v else map sigmoid (drop 4 v))))"
  have "\<forall>x\<in>set xs. \<exists>out. call_sample (build d shp) tr x = Inr out \<and> ?P x out"
    using shape an shp by (intro ballI call_sample_built) auto
  then have "\<exists>ys. mapM (call_sample (build d shp) tr) xs = Inr ys \<and> length ys = length xs \<and>
      (\<forall>b<length xs. ?P (xs ! b) (ys ! b))"
    by (rule mapM_ex)
  then obtain out where out: "call (build d shp) xs tr = Inr out" "length out = length xs"
      "\<forall>b<length xs. ?P (xs ! b) (out ! b)"
    unfolding call_def by blast
  have P: "?P (xs ! b) (out ! b)" using out(3) b by blast
  have cell: "length (xs ! b ! i ! j) = 3 * ?n"
    using shape b ijk has_shape3_nth(3) [of g g "3 * ?n" "xs ! b" i j] by simp
  have r: "take ?n (drop (k * ?n) (xs ! b ! i ! j)) ! c = xs ! b ! i ! j ! (k * ?n + c)"
    if "c < ?n" for c
    using cell ijk(3) that by (rule raw_nth)
  have "out ! b ! ((i * g + j) * 3 + k) =
        (let v = take ?n (drop (k * ?n) (xs ! b ! i ! j)) in
              [((sigmoid (v ! 0) - 0.5) * xyscale d + 0.5 + real j) * real_of_int (cell_width d),
               ((sigmoid (v ! 1) - 0.5) * xyscale d + 0.5 + real i) * real_of_int (cell_width d),
               anchors d ! k ! 0 * exp (v ! 2), anchors d ! k ! 1 * exp (v ! 3)]
              @ (if tr then drop 4 v else map sigmoid (drop 4 v)))"
    using P ijk by blast
  then have "out ! b ! ((i * g + j) * 3 + k) =
             [((sigmoid (xs ! b ! i ! j ! (k * ?n)) - 0.5) * xyscale d + 0.5 + real j)
                * real_of_int (cell_width d),
              ((sigmoid (xs ! b ! i ! j ! (k * ?n + 1)) - 0.5) * xyscale d + 0.5 + real i)
                * real_of_int (cell_width d),
              anchors d ! k ! 0 * exp (xs ! b ! i ! j ! (k * ?n + 2)),
              anchors d ! k ! 1 * exp (xs ! b ! i ! j ! (k * ?n + 3))]
             @ (if tr then take (1 + num_classes d) (drop (k * ?n + 4) (xs ! b ! i ! j))
                else map sigmoid (take (1 + num_classes d) (drop (k * ?n + 4) (xs ! b ! i ! j))))"
    unfolding Let_def raw_drop [OF cell ijk(3)]
    using r [of 0] r [of 1] r [of 2] r [of 3] by simp
  then show ?thesis using out(1,2) P by blast
qed

lemma call_all:
  assumes shape: "\<forall>x\<in>set xs. has_shape3 g g (3 * (5 + num_classes d)) x"
    and an: "length (anchors d) = 3" "\<forall>a\<in>set (anchors d). length a = 2"
    and shp: "shp ! 1 = g"
  shows "\<exists>out. call (build d shp) xs tr = Inr out \<and> length out = length xs \<and>
           (\<forall>b<length xs. length (out ! b) = g * g * 3 \<and>
              (\<forall>r\<in>set (out ! b). length r = 5 + num_classes d))"
proof -
  let ?n = "5 + num_classes d"
  let ?P = "\<lambda>x out. length out = g * g * 3 \<and> (\<forall>r\<in>set out. length r = ?n)"
  have "\<forall>x\<in>set xs. \<exists>out. call_sample (build d shp) tr x = Inr out \<and> ?P x out"
  proof
    fix x assume "x \<in> set xs"
    then have "has_shape3 g g (3 * ?n) x" using shape by blast
    from call_sample_built [OF this an shp, of tr]
    show "\<exists>out. call_sample (build d shp) tr x = Inr out \<and> ?P x out" by blast
  qed
  then have "\<exists>ys. mapM (call_sample (build d shp) tr) xs = Inr ys \<and> length ys = length xs \<and>
      (\<forall>b<length xs. ?P (xs ! b) (ys ! b))"
    by (rule mapM_ex)
  then show ?thesis unfolding call_def by blast
qed

lemma candidate_Some:
  assumes "r = Inr out" "b < length out" "idx < length (out ! b)" "out ! b ! idx = row"
  shows "candidate r b idx = Some row"
  using assms by (simp add: candidate_def)

lemma sigmoid_0: "sigmoid 0 = 1 / 2"
  by (simp add: sigmoid_def)

lemma flat_index_bound:
  assumes "i < g" "j < g" "k < (3::nat)"
  shows "(i * g + j) * 3 + k < g * g * 3"
proof -
  have "Suc i \<le> g" using assms(1) by simp
  then have "Suc i * g \<le> g * g" by (rule mult_le_mono1)
  then have "i * g + j < g * g" using assms(2) by simp
  then have "Suc (i * g + j) \<le> g * g" by simp
  then have "Suc (i * g + j) * 3 \<le> g * g * 3" by (rule mult_le_mono1)
  then show ?thesis using assms(3) by simp
qed

lemma candidate_row:
  assumes shape: "\<forall>x\<in>set xs. has_shape3 g g (3 * (5 + num_classes d)) x"
    and an: "length (anchors d) = 3" "\<forall>a\<in>set (anchors d). length a = 2"
    and shp: "shp ! 1 = g"
    and b: "b < length xs" and ijk: "i < g" "j < g" "k < 3"
  shows "candidate (call (build d shp) xs tr) b ((i * g + j) * 3 + k) =
           Some ([((sigmoid (xs ! b ! i ! j ! (k * (5 + num_classes d))) - 0.5) * xyscale d + 0.5 + real j)
                * real_of_int (cell_width d),
              ((sigmoid (xs ! b ! i ! j ! (k * (5 + num_classes d) + 1)) - 0.5) * xyscale d + 0.5 + real i)
                * real_of_int (cell_width d),
              anchors d ! k ! 0 * exp (xs ! b ! i ! j ! (k * (5 + num_classes d) + 2)),
              anchors d ! k ! 1 * exp (xs ! b ! i ! j ! (k * (5 + num_classes d) + 3))]
             @ (if tr then take (1 + num_classes d) (drop (k * (5 + num_classes d) + 4) (xs ! b ! i ! j))
                else map sigmoid (take (1 + num_classes d) (drop (k * (5 + num_classes d) + 4) (xs ! b ! i ! j)))))"
proof -
  from call_row [OF assms, of tr] obtain out where
    out: "call (build d shp) xs tr = Inr out" "length out = length xs"
      "length (out ! b) = g * g * 3"
    and row: "out ! b ! ((i * g + j) * 3 + k) =
             [((sigmoid (xs ! b ! i ! j ! (k * (5 + num_classes d))) - 0.5) * xyscale d + 0.5 + real j)
                * real_of_int (cell_width d),
              ((sigmoid (xs ! b ! i ! j ! (k * (5 + num_classes d) + 1)) - 0.5) * xyscale d + 0.5 + real i)
                * real_of_int (cell_width d),
              anchors d ! k ! 0 * exp (xs ! b ! i ! j ! (k * (5 + num_classes d) + 2)),
              anchors d ! k ! 1 * exp (xs ! b ! i ! j ! (k * (5 + num_classes d) + 3))]
             @ (if tr then take (1 + num_classes d) (drop (k * (5 + num_classes d) + 4) (xs ! b ! i ! j))
                else map sigmoid (take (1 + num_classes d) (drop (k * (5 + num_classes d) + 4) (xs ! b ! i ! j))))"
    by blast
  have "b < length out" using out(2) b by simp
  moreover have "(i * g + j) * 3 + k < length (out ! b)"
    using flat_index_bound [OF ijk] out(3) by simp
  ultimately show ?thesis using out(1) row by (intro candidate_Some)
qed

lemma build_grid_nth:
  assumes "shp ! 1 = g" "i < g" "j < g" "k < 3"
  shows "\<exists>G. xy_grid (build d shp) = Some [G] \<and> G ! i ! j ! k = [real j, real i]"
  using assms by (simp add: build_xy_grid)

section \<open>The claims about Decode\<close>

text \<open>
  In the statements below the layer receives a batch \<open>xs\<close> of tensors of shape
  \<open>(g, g, 3 * (5 + C))\<close>, the output of the preceding convolution, and \<open>build\<close> has
  run on a shape whose entry 1 is \<open>g\<close>. Component \<open>c\<close> of the raw prediction of
  anchor \<open>k\<close> at row \<open>i\<close>, column \<open>j\<close>, which is entry \<open>(i, j, k, c)\<close> of the
  tensor after \<open>reshape0\<close>, is \<open>xs ! b ! i ! j ! (k * (5 + C) + c)\<close>; its decoded
  candidate is row \<open>(i * g + j) * 3 + k\<close> of the output.
\<close>

text \<open>
  C1: for every row \<open>i\<close>, column \<open>j\<close> and anchor \<open>k\<close>, the decoded x equals
  \<open>((sigmoid dx - 0.5) * xyscale + 0.5 + j) * cell_width\<close> and the decoded y equals
  \<open>((sigmoid dy - 0.5) * xyscale + 0.5 + i) * cell_width\<close>, where \<open>dx\<close>, \<open>dy\<close> are
  the first two components of the raw prediction at \<open>(i, j, k)\<close>; in both modes.
\<close>

theorem decode_xy_formula:
  assumes "\<forall>x\<in>set xs. has_shape3 g g (3 * (5 + num_classes d)) x"
    and "length (anchors d) = 3" and "\<forall>a\<in>set (anchors d). length a = 2"
    and "input_shape ! 1 = g"
    and "b < length xs" and "i < g" and "j < g" and "k < 3"
  shows "\<exists>out. call (build d input_shape) xs training = Inr out \<and>
           out ! b ! ((i * g + j) * 3 + k) ! 0 =
             ((sigmoid (xs ! b ! i ! j ! (k * (5 + num_classes d))) - 0.5) * xyscale d + 0.5 + real j)
               * real_of_int (cell_width d) \<and>
           out ! b ! ((i * g + j) * 3 + k) ! 1 =
             ((sigmoid (xs ! b ! i ! j ! (k * (5 + num_classes d) + 1)) - 0.5) * xyscale d + 0.5 + real i)
               * real_of_int (cell_width d)"
proof -
  from call_row [OF assms, of training]
  obtain out where "call (build d input_shape) xs training = Inr out"
    and "out ! b ! ((i * g + j) * 3 + k) =
             [((sigmoid (xs ! b ! i ! j ! (k * (5 + num_classes d))) - 0.5) * xyscale d + 0.5 + real j)
                * real_of_int (cell_width d),
              ((sigmoid (xs ! b ! i ! j ! (k * (5 + num_classes d) + 1)) - 0.5) * xyscale d + 0.5 + real i)
                * real_of_int (cell_width d),
              anchors d ! k ! 0 * exp (xs ! b ! i ! j ! (k * (5 + num_classes d) + 2)),
              anchors d ! k ! 1 * exp (xs ! b ! i ! j ! (k * (5 + num_classes d) + 3))]
             @ (if training then take (1 + num_classes d) (drop (k * (5 + num_classes d) + 4) (xs ! b ! i ! j))
                else map sigmoid (take (1 + num_classes d) (drop (k * (5 + num_classes d) + 4) (xs ! b ! i ! j))))"
    by blast
  then show ?thesis by simp
qed

theorem decode_xy_formula_witness:
  "has_shape3 2 2 (3 * (5 + 1)) (replicate 2 (replicate 2 (replicate 18 (0::real))))
   \<and> (\<exists>out. call (build (Decode_init [[10, 13], [16, 30], [33, 23]] 8 1 (12 / 10)) [1, 2, 2, 18])
                [replicate 2 (replicate 2 (replicate 18 0))] False = Inr out \<and>
           out ! 0 ! ((1 * 2 + 0) * 3 + 2) ! 0 = 4 \<and> out ! 0 ! ((1 * 2 + 0) * 3 + 2) ! 1 = 12)"
  using decode_xy_formula [of "[replicate 2 (replicate 2 (replicate 18 0))]" 2
      "Decode_init [[10, 13], [16, 30], [33, 23]] 8 1 (12 / 10)" "[1, 2, 2, 18]" 0 1 0 2 False]
  by (simp add: has_shape3_def Decode_init_def sigmoid_def)

text \<open>
  C2 does not hold as stated: w and h are not multiplied by \<open>cell_width\<close>. With the
  normalised anchor \<open>(0.1, 0.1)\<close> and an all-zero input, the layers of cell width 32
  and of cell width 8 decode x and y to 16 and to 4, but w and h to 0.1 both times,
  which is not the fraction \<open>0.1 * exp 0\<close> times 32.
\<close>

theorem decode_units_counterexample:
  "candidate (call (build (Decode_init [[1 / 10, 1 / 10], [2 / 10, 2 / 10], [3 / 10, 3 / 10]] 32 0 1)
                 [1, 1, 1, 15]) [[[replicate 15 0]]] False) 0 0
     = Some [16, 16, 1 / 10, 1 / 10, 1 / 2]
   \<and> candidate (call (build (Decode_init [[1 / 10, 1 / 10], [2 / 10, 2 / 10], [3 / 10, 3 / 10]] 8 0 1)
                 [1, 1, 1, 15]) [[[replicate 15 0]]] False) 0 0
     = Some [4, 4, 1 / 10, 1 / 10, 1 / 2]
   \<and> (1 / 10 :: real) \<noteq> (1 / 10 * exp 0) * 32"
proof -
  let ?a = "[[1 / 10, 1 / 10], [2 / 10, 2 / 10], [3 / 10, 3 / 10 :: real]]"
  have sh: "\<forall>x\<in>set [[[replicate 15 (0::real)]]]. has_shape3 1 1 (3 * (5 + num_classes (Decode_init ?a cw 0 1))) x"
    for cw
    by (simp add: has_shape3_def Decode_init_def)
  from candidate_row [OF sh, of 32 "[1, 1, 1, 15]" 0 0 0 0 False]
  have 1: "candidate (call (build (Decode_init ?a 32 0 1) [1, 1, 1, 15]) [[[replicate 15 0]]] False) 0 0
        = Some [16, 16, 1 / 10, 1 / 10, 1 / 2]"
    by (simp add: Decode_init_def sigmoid_0)
  from candidate_row [OF sh, of 8 "[1, 1, 1, 15]" 0 0 0 0 False]
  have 2: "candidate (call (build (Decode_init ?a 8 0 1) [1, 1, 1, 15]) [[[replicate 15 0]]] False) 0 0
        = Some [4, 4, 1 / 10, 1 / 10, 1 / 2]"
    by (simp add: Decode_init_def sigmoid_0)
  show ?thesis using 1 2 by simp
qed

text \<open>
  C2, amended: x and y equal the value in grid units,
  \<open>(sigmoid d - 0.5) * xyscale + 0.5 + offset\<close>, multiplied by \<open>cell_width\<close>, so they
  scale with it; w and h equal \<open>anchor * exp d\<close> and do not depend on \<open>cell_width\<close>:
  they are in the unit in which the anchors are given. Here \<open>out'\<close> is the output of
  the same layer with another cell width \<open>cw'\<close>.
\<close>

theorem decode_units:
  assumes "\<forall>x\<in>set xs. has_shape3 g g (3 * (5 + num_classes d)) x"
    and "length (anchors d) = 3" and "\<forall>a\<in>set (anchors d). length a = 2"
    and "input_shape ! 1 = g"
    and "b < length xs" and "i < g" and "j < g" and "k < 3"
  shows "\<exists>out out'.
           call (build d input_shape) xs training = Inr out \<and>
           call (build (d\<lparr>cell_width := cw'\<rparr>) input_shape) xs training = Inr out' \<and>
           out ! b ! ((i * g + j) * 3 + k) ! 0 =
             ((sigmoid (xs ! b ! i ! j ! (k * (5 + num_classes d))) - 0.5) * xyscale d + 0.5 + real j)
               * real_of_int (cell_width d) \<and>
           out' ! b ! ((i * g + j) * 3 + k) ! 0 =
             ((sigmoid (xs ! b ! i ! j ! (k * (5 + num_classes d))) - 0.5) * xyscale d + 0.5 + real j)
               * real_of_int cw' \<and>
           out ! b ! ((i * g + j) * 3 + k) ! 1 =
             ((sigmoid (xs ! b ! i ! j ! (k * (5 + num_classes d) + 1)) - 0.5) * xyscale d + 0.5 + real i)
               * real_of_int (cell_width d) \<and>
           out' ! b ! ((i * g + j) * 3 + k) ! 1 =
             ((sigmoid (xs ! b ! i ! j ! (k * (5 + num_classes d) + 1)) - 0.5) * xyscale d + 0.5 + real i)
               * real_of_int cw' \<and>
           out ! b ! ((i * g + j) * 3 + k) ! 2 =
             anchors d ! k ! 0 * exp (xs ! b ! i ! j ! (k * (5 + num_classes d) + 2)) \<and>
           out' ! b ! ((i * g + j) * 3 + k) ! 2 = out ! b ! ((i * g + j) * 3 + k) ! 2 \<and>
           out ! b ! ((i * g + j) * 3 + k) ! 3 =
             anchors d ! k ! 1 * exp (xs ! b ! i ! j ! (k * (5 + num_classes d) + 3)) \<and>
           out' ! b ! ((i * g + j) * 3 + k) ! 3 = out ! b ! ((i * g + j) * 3 + k) ! 3"
proof -
  let ?d' = "d\<lparr>cell_width := cw'\<rparr>"
  from call_row [OF assms, of training]
  obtain out where out: "call (build d input_shape) xs training = Inr out"
    and row: "out ! b ! ((i * g + j) * 3 + k) =
             [((sigmoid (xs ! b ! i ! j ! (k * (5 + num_classes d))) - 0.5) * xyscale d + 0.5 + real j)
                * real_of_int (cell_width d),
              ((sigmoid (xs ! b ! i ! j ! (k * (5 + num_classes d) + 1)) - 0.5) * xyscale d + 0.5 + real i)
                * real_of_int (cell_width d),
              anchors d ! k ! 0 * exp (xs ! b ! i ! j ! (k * (5 + num_classes d) + 2)),
              anchors d ! k ! 1 * exp (xs ! b ! i ! j ! (k * (5 + num_classes d) + 3))]
             @ (if training then take (1 + num_classes d) (drop (k * (5 + num_classes d) + 4) (xs ! b ! i ! j))
                else map sigmoid (take (1 + num_classes d) (drop (k * (5 + num_classes d) + 4) (xs ! b ! i ! j))))"
    by blast
  have a': "\<forall>x\<in>set xs. has_shape3 g g (3 * (5 + num_classes ?d')) x"
    "length (anchors ?d') = 3" "\<forall>a\<in>set (anchors ?d'). length a = 2"
    using assms(1-3) by simp_all
  from call_row [OF a' assms(4-8), of training]
  obtain out' where out': "call (build ?d' input_shape) xs training = Inr out'"
    and row': "out' ! b ! ((i * g + j) * 3 + k) =
             [((sigmoid (xs ! b ! i ! j ! (k * (5 + num_classes d))) - 0.5) * xyscale d + 0.5 + real j)
                * real_of_int cw',
              ((sigmoid (xs ! b ! i ! j ! (k * (5 + num_classes d) + 1)) - 0.5) * xyscale d + 0.5 + real i)
                * real_of_int cw',
              anchors d ! k ! 0 * exp (xs ! b ! i ! j ! (k * (5 + num_classes d) + 2)),
              anchors d ! k ! 1 * exp (xs ! b ! i ! j ! (k * (5 + num_classes d) + 3))]
             @ (if training then take (1 + num_classes d) (drop (k * (5 + num_classes d) + 4) (xs ! b ! i ! j))
                else map sigmoid (take (1 + num_classes d) (drop (k * (5 + num_classes d) + 4) (xs ! b ! i ! j))))"
    by auto
  show ?thesis using out out' row row' by simp
qed

theorem decode_units_witness:
  "has_shape3 1 1 (3 * (5 + 0)) [[replicate 15 (0::real)]]
   \<and> (\<exists>out out'.
        call (build (Decode_init [[1 / 10, 1 / 10], [2 / 10, 2 / 10], [3 / 10, 3 / 10]] 32 0 1)
                 [1, 1, 1, 15]) [[[replicate 15 0]]] False = Inr out \<and>
        call (build ((Decode_init [[1 / 10, 1 / 10], [2 / 10, 2 / 10], [3 / 10, 3 / 10]] 32 0 1)
                       \<lparr>cell_width := 8\<rparr>) [1, 1, 1, 15]) [[[replicate 15 0]]] False = Inr out' \<and>
        out ! 0 ! 0 ! 0 = 16 \<and> out' ! 0 ! 0 ! 0 = 4 \<and> out ! 0 ! 0 ! 1 = 16 \<and> out' ! 0 ! 0 ! 1 = 4 \<and>
        out ! 0 ! 0 ! 2 = 1 / 10 \<and> out' ! 0 ! 0 ! 2 = out ! 0 ! 0 ! 2 \<and>
        out ! 0 ! 0 ! 3 = 1 / 10 \<and> out' ! 0 ! 0 ! 3 = out ! 0 ! 0 ! 3)"
  using decode_units [of "[[[replicate 15 0]]]" 1
      "Decode_init [[1 / 10, 1 / 10], [2 / 10, 2 / 10], [3 / 10, 3 / 10]] 32 0 1" "[1, 1, 1, 15]" 0 0 0 0 False 8]
  by (simp add: has_shape3_def Decode_init_def sigmoid_0)

text \<open>
  C3: for every cell \<open>(i, j)\<close> and anchor \<open>k\<close> the decoded width is
  \<open>anchor_w * exp dw\<close> and the decoded height is \<open>anchor_h * exp dh\<close>, where
  \<open>(anchor_w, anchor_h)\<close> is anchor \<open>k\<close> of the layer and \<open>dw\<close>, \<open>dh\<close> are the raw
  third and fourth components, to which no sigmoid is applied; in both modes.
\<close>

theorem decode_wh_formula:
  assumes "\<forall>x\<in>set xs. has_shape3 g g (3 * (5 + num_classes d)) x"
    and "length (anchors d) = 3" and "\<forall>a\<in>set (anchors d). length a = 2"
    and "input_shape ! 1 = g"
    and "b < length xs" and "i < g" and "j < g" and "k < 3"
  shows "\<exists>out. call (build d input_shape) xs training = Inr out \<and>
           out ! b ! ((i * g + j) * 3 + k) ! 2 =
             anchors d ! k ! 0 * exp (xs ! b ! i ! j ! (k * (5 + num_classes d) + 2)) \<and>
           out ! b ! ((i * g + j) * 3 + k) ! 3 =
             anchors d ! k ! 1 * exp (xs ! b ! i ! j ! (k * (5 + num_classes d) + 3))"
proof -
  from call_row [OF assms, of training]
  obtain out where "call (build d input_shape) xs training = Inr out"
    and "out ! b ! ((i * g + j) * 3 + k) =
             [((sigmoid (xs ! b ! i ! j ! (k * (5 + num_classes d))) - 0.5) * xyscale d + 0.5 + real j)
                * real_of_int (cell_width d),
              ((sigmoid (xs ! b ! i ! j ! (k * (5 + num_classes d) + 1)) - 0.5) * xyscale d + 0.5 + real i)
                * real_of_int (cell_width d),
              anchors d ! k ! 0 * exp (xs ! b ! i ! j ! (k * (5 + num_classes d) + 2)),
              anchors d ! k ! 1 * exp (xs ! b ! i ! j ! (k * (5 + num_classes d) + 3))]
             @ (if training then take (1 + num_classes d) (drop (k * (5 + num_classes d) + 4) (xs ! b ! i ! j))
                else map sigmoid (take (1 + num_classes d) (drop (k * (5 + num_classes d) + 4) (xs ! b ! i ! j))))"
    by blast
  then show ?thesis by simp
qed

theorem decode_wh_formula_witness:
  "has_shape3 2 2 (3 * (5 + 1)) (replicate 2 (replicate 2 (replicate 18 (0::real))))
   \<and> (\<exists>out. call (build (Decode_init [[10, 13], [16, 30], [33, 23]] 8 1 (12 / 10)) [1, 2, 2, 18])
                [replicate 2 (replicate 2 (replicate 18 0))] True = Inr out \<and>
           out ! 0 ! ((1 * 2 + 0) * 3 + 2) ! 2 = 33 \<and> out ! 0 ! ((1 * 2 + 0) * 3 + 2) ! 3 = 23)"
  using decode_wh_formula [of "[replicate 2 (replicate 2 (replicate 18 0))]" 2
      "Decode_init [[10, 13], [16, 30], [33, 23]] 8 1 (12 / 10)" "[1, 2, 2, 18]" 0 1 0 2 True]
  by (simp add: has_shape3_def Decode_init_def)

text \<open>
  C4: the grid that \<open>build\<close> stores holds \<open>(j, i)\<close> at row \<open>i\<close>, column \<open>j\<close>, for
  every anchor; \<open>call\<close> adds its first entry, the column index, to the x channel and
  its second entry, the row index, to the y channel.
\<close>

theorem grid_offsets:
  assumes "\<forall>x\<in>set xs. has_shape3 g g (3 * (5 + num_classes d)) x"
    and "length (anchors d) = 3" and "\<forall>a\<in>set (anchors d). length a = 2"
    and "input_shape ! 1 = g"
    and "b < length xs" and "i < g" and "j < g" and "k < 3"
  shows "\<exists>G out. xy_grid (build d input_shape) = Some [G] \<and>
           G ! i ! j ! k = [real j, real i] \<and>
           call (build d input_shape) xs training = Inr out \<and>
           out ! b ! ((i * g + j) * 3 + k) ! 0 =
             ((sigmoid (xs ! b ! i ! j ! (k * (5 + num_classes d))) - 0.5) * xyscale d + 0.5
                + G ! i ! j ! k ! 0) * real_of_int (cell_width d) \<and>
           out ! b ! ((i * g + j) * 3 + k) ! 1 =
             ((sigmoid (xs ! b ! i ! j ! (k * (5 + num_classes d) + 1)) - 0.5) * xyscale d + 0.5
                + G ! i ! j ! k ! 1) * real_of_int (cell_width d)"
proof -
  from build_grid_nth [OF assms(4,6,7,8), of d]
  obtain G where G: "xy_grid (build d input_shape) = Some [G]" "G ! i ! j ! k = [real j, real i]"
    by blast
  from call_row [OF assms, of training]
  obtain out where out: "call (build d input_shape) xs training = Inr out"
    and "out ! b ! ((i * g + j) * 3 + k) =
             [((sigmoid (xs ! b ! i ! j ! (k * (5 + num_classes d))) - 0.5) * xyscale d + 0.5 + real j)
                * real_of_int (cell_width d),
              ((sigmoid (xs ! b ! i ! j ! (k * (5 + num_classes d) + 1)) - 0.5) * xyscale d + 0.5 + real i)
                * real_of_int (cell_width d),
              anchors d ! k ! 0 * exp (xs ! b ! i ! j ! (k * (5 + num_classes d) + 2)),
              anchors d ! k ! 1 * exp (xs ! b ! i ! j ! (k * (5 + num_classes d) + 3))]
             @ (if training then take (1 + num_classes d) (drop (k * (5 + num_classes d) + 4) (xs ! b ! i ! j))
                else map sigmoid (take (1 + num_classes d) (drop (k * (5 + num_classes d) + 4) (xs ! b ! i ! j))))"
    by blast
  then have "out ! b ! ((i * g + j) * 3 + k) ! 0 =
             ((sigmoid (xs ! b ! i ! j ! (k * (5 + num_classes d))) - 0.5) * xyscale d + 0.5
                + G ! i ! j ! k ! 0) * real_of_int (cell_width d)"
    and "out ! b ! ((i * g + j) * 3 + k) ! 1 =
             ((sigmoid (xs ! b ! i ! j ! (k * (5 + num_classes d) + 1)) - 0.5) * xyscale d + 0.5
                + G ! i ! j ! k ! 1) * real_of_int (cell_width d)"
    by (simp_all add: G(2))
  with G out show ?thesis by blast
qed

theorem grid_offsets_witness:
  "has_shape3 2 2 (3 * (5 + 1)) (replicate 2 (replicate 2 (replicate 18 (0::real))))
   \<and> (\<exists>G out. xy_grid (build (Decode_init [[10, 13], [16, 30], [33, 23]] 8 1 (12 / 10)) [1, 2, 2, 18])
                 = Some [G] \<and>
           G ! 1 ! 0 ! 2 = [0, 1] \<and>
           call (build (Decode_init [[10, 13], [16, 30], [33, 23]] 8 1 (12 / 10)) [1, 2, 2, 18])
                [replicate 2 (replicate 2 (replicate 18 0))] False = Inr out \<and>
           out ! 0 ! ((1 * 2 + 0) * 3 + 2) ! 0 = (1 / 2 + G ! 1 ! 0 ! 2 ! 0) * 8 \<and>
           out ! 0 ! ((1 * 2 + 0) * 3 + 2) ! 1 = (1 / 2 + G ! 1 ! 0 ! 2 ! 1) * 8)"
  using grid_offsets [of "[replicate 2 (replicate 2 (replicate 18 0))]" 2
      "Decode_init [[10, 13], [16, 30], [33, 23]] 8 1 (12 / 10)" "[1, 2, 2, 18]" 0 1 0 2 False]
  by (simp add: has_shape3_def Decode_init_def sigmoid_def)

text \<open>
  C5: with \<open>training = False\<close> the objectness (\<open>c = 0\<close>) and every class score
  (\<open>c = 1, \<dots>, C\<close>) of the output is the sigmoid of the raw value; with
  \<open>training = True\<close> it is the raw value unchanged; x, y, w and h are the same in
  both modes.
\<close>

theorem training_flag:
  assumes "\<forall>x\<in>set xs. has_shape3 g g (3 * (5 + num_classes d)) x"
    and "length (anchors d) = 3" and "\<forall>a\<in>set (anchors d). length a = 2"
    and "input_shape ! 1 = g"
    and "b < length xs" and "i < g" and "j < g" and "k < 3"
    and "c < 1 + num_classes d"
  shows "\<exists>inference train.
           call (build d input_shape) xs False = Inr inference \<and>
           call (build d input_shape) xs True = Inr train \<and>
           inference ! b ! ((i * g + j) * 3 + k) ! (4 + c) =
             sigmoid (xs ! b ! i ! j ! (k * (5 + num_classes d) + 4 + c)) \<and>
           train ! b ! ((i * g + j) * 3 + k) ! (4 + c) =
             xs ! b ! i ! j ! (k * (5 + num_classes d) + 4 + c) \<and>
           take 4 (inference ! b ! ((i * g + j) * 3 + k)) = take 4 (train ! b ! ((i * g + j) * 3 + k))"
proof -
  let ?n = "5 + num_classes d"
  let ?cell = "xs ! b ! i ! j"
  let ?xywh = "[((sigmoid (?cell ! (k * ?n)) - 0.5) * xyscale d + 0.5 + real j)
                * real_of_int (cell_width d),
              ((sigmoid (?cell ! (k * ?n + 1)) - 0.5) * xyscale d + 0.5 + real i)
                * real_of_int (cell_width d),
              anchors d ! k ! 0 * exp (?cell ! (k * ?n + 2)),
              anchors d ! k ! 1 * exp (?cell ! (k * ?n + 3))]"
  let ?raw = "take (1 + num_classes d) (drop (k * ?n + 4) ?cell)"
  from call_row [OF assms(1-8), of False]
  obtain inference where inf: "call (build d input_shape) xs False = Inr inference"
    "inference ! b ! ((i * g + j) * 3 + k) = ?xywh @ map sigmoid ?raw"
    by auto
  from call_row [OF assms(1-8), of True]
  obtain train where trn: "call (build d input_shape) xs True = Inr train"
    "train ! b ! ((i * g + j) * 3 + k) = ?xywh @ ?raw"
    by auto
  have cell: "length ?cell = 3 * ?n"
    using assms(1,5,6,7) has_shape3_nth(3) [of g g "3 * ?n" "xs ! b" i j] by simp
  have "Suc k \<le> 3" using assms(8) by simp
  then have "Suc k * ?n \<le> 3 * ?n" by (rule mult_le_mono1)
  then have "k * ?n + ?n \<le> length ?cell" using cell by simp
  then have lt: "k * ?n + 4 + c < length ?cell" using assms(9) by linarith
  then have raw: "?raw ! c = ?cell ! (k * ?n + 4 + c)" and len: "c < length ?raw"
    using assms(9) by simp_all
  have "(?xywh @ map sigmoid ?raw) ! (4 + c) = sigmoid (?cell ! (k * ?n + 4 + c))"
    using raw len by (simp add: nth_append del: length_take nth_take)
  moreover have "(?xywh @ ?raw) ! (4 + c) = ?cell ! (k * ?n + 4 + c)"
    using raw by (simp add: nth_append del: length_take nth_take)
  ultimately show ?thesis using inf trn by simp
qed

theorem training_flag_witness:
  "has_shape3 2 2 (3 * (5 + 1)) (replicate 2 (replicate 2 (replicate 18 (0::real))))
   \<and> (\<exists>inference train.
         call (build (Decode_init [[10, 13], [16, 30], [33, 23]] 8 1 (12 / 10)) [1, 2, 2, 18])
              [replicate 2 (replicate 2 (replicate 18 0))] False = Inr inference \<and>
         call (build (Decode_init [[10, 13], [16, 30], [33, 23]] 8 1 (12 / 10)) [1, 2, 2, 18])
              [replicate 2 (replicate 2 (replicate 18 0))] True = Inr train \<and>
         inference ! 0 ! ((1 * 2 + 0) * 3 + 2) ! (4 + 1) = 1 / 2 \<and>
         train ! 0 ! ((1 * 2 + 0) * 3 + 2) ! (4 + 1) = 0 \<and>
         take 4 (inference ! 0 ! ((1 * 2 + 0) * 3 + 2)) = take 4 (train ! 0 ! ((1 * 2 + 0) * 3 + 2)))"
  using training_flag [of "[replicate 2 (replicate 2 (replicate 18 0))]" 2
      "Decode_init [[10, 13], [16, 30], [33, 23]] 8 1 (12 / 10)" "[1, 2, 2, 18]" 0 1 0 2 1]
  by (simp add: has_shape3_def Decode_init_def sigmoid_def)

text \<open>
  C7 does not hold as stated. On a grid of 8 with cell width 32, the normalised anchor
  \<open>(0.1, 0.1)\<close>, \<open>xyscale = 1.2\<close>, \<open>dx = dy = dw = dh = 0\<close> and objectness logit 20 at
  cell \<open>(0, 0)\<close>, anchor 0, the decoded row is \<open>(16, 16, 0.1, 0.1, sigmoid 20, \<dots>)\<close>:
  the centre is not near \<open>(0.5 * xyscale + 0.5) * 32 = 35.2\<close> and the width is not
  near \<open>0.1 * 256 = 25.6\<close>.
\<close>

theorem single_candidate_counterexample:
  "candidate
     (call (build (Decode_init [[1 / 10, 1 / 10], [2 / 10, 2 / 10], [3 / 10, 3 / 10]] 32 1 (12 / 10))
              [1, 8, 8, 18])
        [(([0, 0, 0, 0, 20, 0] @ replicate 12 0) # replicate 7 (replicate 18 0))
          # replicate 7 (replicate 8 (replicate 18 0))] False) 0 0
     = Some [16, 16, 1 / 10, 1 / 10, sigmoid 20, 1 / 2]
   \<and> \<not> \<bar>16 - (0.5 * (12 / 10) + 0.5) * 32\<bar> \<le> (1::real)
   \<and> \<not> \<bar>1 / 10 - 0.1 * 256\<bar> \<le> (1::real)"
proof -
  let ?d = "Decode_init [[1 / 10, 1 / 10], [2 / 10, 2 / 10], [3 / 10, 3 / 10]] 32 1 (12 / 10)"
  let ?x = "(([0, 0, 0, 0, 20, 0] @ replicate 12 0) # replicate 7 (replicate 18 (0::real)))
             # replicate 7 (replicate 8 (replicate 18 0))"
  have sh: "\<forall>x\<in>set [?x]. has_shape3 8 8 (3 * (5 + num_classes ?d)) x"
    by (simp add: has_shape3_def Decode_init_def)
  from candidate_row [OF sh, of "[1, 8, 8, 18]" 0 0 0 0 False]
  have "candidate (call (build ?d [1, 8, 8, 18]) [?x] False) 0 0
        = Some [16, 16, 1 / 10, 1 / 10, sigmoid 20, 1 / 2]"
    by (simp add: Decode_init_def sigmoid_0)
  then show ?thesis by simp
qed

text \<open>
  C7, amended: for that candidate (grid 8, cell width 32, anchor 0 equal to
  \<open>(0.1, 0.1)\<close>, \<open>dx = dy = dw = dh = 0\<close> at cell \<open>(0, 0)\<close>), whatever \<open>xyscale\<close> is, the
  decoded centre is exactly \<open>0.5 * 32 = 16\<close> in each coordinate and the decoded width
  and height are the anchor itself, 0.1 each.
\<close>

theorem single_candidate_decoded:
  assumes "\<forall>x\<in>set xs. has_shape3 8 8 (3 * (5 + num_classes d)) x"
    and "length (anchors d) = 3" and "\<forall>a\<in>set (anchors d). length a = 2"
    and "input_shape ! 1 = 8" and "b < length xs"
    and "cell_width d = 32" and "anchors d ! 0 = [1 / 10, 1 / 10]"
    and "xs ! b ! 0 ! 0 ! 0 = 0" and "xs ! b ! 0 ! 0 ! 1 = 0"
    and "xs ! b ! 0 ! 0 ! 2 = 0" and "xs ! b ! 0 ! 0 ! 3 = 0"
  shows "\<exists>out. call (build d input_shape) xs False = Inr out \<and>
           out ! b ! 0 ! 0 = 0.5 * 32 \<and> out ! b ! 0 ! 1 = 0.5 * 32 \<and>
           out ! b ! 0 ! 2 = 1 / 10 \<and> out ! b ! 0 ! 3 = 1 / 10"
proof -
  have z: "(0::nat) < 8" "(0::nat) < 3" by simp_all
  note r = call_row [OF assms(1-5) z(1) z(1) z(2), of False,
      unfolded mult_zero_left add_0_left add_0_right if_False of_nat_0 assms(6-11)]
  then obtain out where out: "call (build d input_shape) xs False = Inr out"
    and row: "out ! b ! 0 =
       [((sigmoid 0 - 0.5) * xyscale d + 0.5) * real_of_int 32,
        ((sigmoid 0 - 0.5) * xyscale d + 0.5) * real_of_int 32,
        [1 / 10, 1 / 10] ! 0 * exp 0, [1 / 10, 1 / 10] ! 1 * exp 0]
       @ map sigmoid (take (1 + num_classes d) (drop 4 (xs ! b ! 0 ! 0)))"
    by blast
  show ?thesis
    using out row by (simp add: sigmoid_0)
qed

theorem single_candidate_decoded_witness:
  "has_shape3 8 8 (3 * (5 + 1))
      ((([0, 0, 0, 0, 20, 0] @ replicate 12 0) # replicate 7 (replicate 18 (0::real)))
          # replicate 7 (replicate 8 (replicate 18 0)))
   \<and> (\<exists>out. call (build (Decode_init [[1 / 10, 1 / 10], [2 / 10, 2 / 10], [3 / 10, 3 / 10]] 32 1 (12 / 10))
                   [1, 8, 8, 18])
              [(([0, 0, 0, 0, 20, 0] @ replicate 12 0) # replicate 7 (replicate 18 0))
                # replicate 7 (replicate 8 (replicate 18 0))] False = Inr out \<and>
           out ! 0 ! 0 ! 0 = 16 \<and> out ! 0 ! 0 ! 1 = 16 \<and>
           out ! 0 ! 0 ! 2 = 1 / 10 \<and> out ! 0 ! 0 ! 3 = 1 / 10)"
  using single_candidate_decoded
    [of "[(([0, 0, 0, 0, 20, 0] @ replicate 12 0) # replicate 7 (replicate 18 0))
            # replicate 7 (replicate 8 (replicate 18 0))]"
        "Decode_init [[1 / 10, 1 / 10], [2 / 10, 2 / 10], [3 / 10, 3 / 10]] 32 1 (12 / 10)"
        "[1, 8, 8, 18]" 0]
  by (simp add: has_shape3_def Decode_init_def)

section \<open>Counting candidates, loading and predicting\<close>

lemma static_shape_1:
  assumes "xs \<noteq> []" "\<forall>x\<in>set xs. has_shape3 g g c x"
  shows "static_shape xs ! 1 = g"
proof -
  from assms(1) obtain x rest where "xs = x # rest" by (cases xs) auto
  then show ?thesis using assms(2) by (simp add: static_shape_def has_shape3_def)
qed

lemma Decode_apply_count:
  assumes "\<forall>x\<in>set xs. has_shape3 g g (3 * (5 + num_classes d)) x"
    and "length (anchors d) = 3" "\<forall>a\<in>set (anchors d). length a = 2"
  shows "\<exists>out. Decode_apply d xs tr = Inr out \<and> length out = length xs \<and>
           (\<forall>b<length xs. length (out ! b) = g * g * 3 \<and>
              (\<forall>r\<in>set (out ! b). length r = 5 + num_classes d))"
proof (cases "xs = []")
  case True
  then show ?thesis by (simp add: Decode_apply_def call_def)
next
  case False
  then have "static_shape xs ! 1 = g" using assms(1) by (rule static_shape_1)
  from call_all [OF assms this, of tr] show ?thesis by (simp only: Decode_apply_def)
qed

lemma YOLOv4_init_Inr:
  assumes "YOLOv4_init anchs nc xyscales = Inr model"
  shows "decode93 model = Decode_init (anchs ! 0) 8 nc (xyscales ! 0)"
    "decode101 model = Decode_init (anchs ! 1) 16 nc (xyscales ! 1)"
    "decode109 model = Decode_init (anchs ! 2) 32 nc (xyscales ! 2)"
    "3 \<le> length anchs"
  using assms
  by (auto simp: YOLOv4_init_def getitem_def split: if_splits)

lemma concat_total_count:
  assumes "length s = n" "length m = n" "length l = n"
  shows "\<exists>out. concat_total s m l = Inr out \<and> length out = n \<and>
           (\<forall>b<n. out ! b = s ! b @ m ! b @ l ! b)"
  using assms by (simp add: concat_total_def)

lemma YOLOv4_call_count:
  assumes init: "YOLOv4_init anchs nc xyscales = Inr model"
    and an: "\<forall>A\<in>set anchs. length A = 3 \<and> (\<forall>a\<in>set A. length a = 2)"
    and heads: "heads x = (r93, r101, r109)"
    and s1: "\<forall>t\<in>set r93. has_shape3 g1 g1 (3 * (5 + nc)) t"
    and s2: "\<forall>t\<in>set r101. has_shape3 g2 g2 (3 * (5 + nc)) t"
    and s3: "\<forall>t\<in>set r109. has_shape3 g3 g3 (3 * (5 + nc)) t"
    and len: "length r93 = n" "length r101 = n" "length r109 = n"
  shows "\<exists>out. YOLOv4_call model heads x tr = Inr out \<and> length out = n \<and>
           (\<forall>b<n. length (out ! b) = g1 * g1 * 3 + g2 * g2 * 3 + g3 * g3 * 3 \<and>
              (\<forall>r\<in>set (out ! b). length r = 5 + nc))"
proof -
  note i = YOLOv4_init_Inr [OF init]
  have a: "length (anchs ! q) = 3 \<and> (\<forall>a\<in>set (anchs ! q). length a = 2)" if "q < 3" for q
  proof -
    have "anchs ! q \<in> set anchs" using i(4) that by simp
    then show ?thesis using an by blast
  qed
  have "\<exists>out. Decode_apply (decode93 model) r93 tr = Inr out \<and> length out = length r93 \<and>
           (\<forall>b<length r93. length (out ! b) = g1 * g1 * 3 \<and>
              (\<forall>r\<in>set (out ! b). length r = 5 + num_classes (decode93 model)))"
    using s1 a [of 0] by (intro Decode_apply_count) (simp_all add: i Decode_init_def)
  then obtain s where s: "Decode_apply (decode93 model) r93 tr = Inr s" "length s = n"
    "\<forall>b<n. length (s ! b) = g1 * g1 * 3 \<and> (\<forall>r\<in>set (s ! b). length r = 5 + nc)"
    using len by (auto simp: i Decode_init_def)
  have "\<exists>out. Decode_apply (decode101 model) r101 tr = Inr out \<and> length out = length r101 \<and>
           (\<forall>b<length r101. length (out ! b) = g2 * g2 * 3 \<and>
              (\<forall>r\<in>set (out ! b). length r = 5 + num_classes (decode101 model)))"
    using s2 a [of 1] by (intro Decode_apply_count) (simp_all add: i Decode_init_def)
  then obtain m where m: "Decode_apply (decode101 model) r101 tr = Inr m" "length m = n"
    "\<forall>b<n. length (m ! b) = g2 * g2 * 3 \<and> (\<forall>r\<in>set (m ! b). length r = 5 + nc)"
    using len by (auto simp: i Decode_init_def)
  have "\<exists>out. Decode_apply (decode109 model) r109 tr = Inr out \<and> length out = length r109 \<and>
           (\<forall>b<length r109. length (out ! b) = g3 * g3 * 3 \<and>
              (\<forall>r\<in>set (out ! b). length r = 5 + num_classes (decode109 model)))"
    using s3 a [of 2] by (intro Decode_apply_count) (simp_all add: i Decode_init_def)
  then obtain l where l: "Decode_apply (decode109 model) r109 tr = Inr l" "length l = n"
    "\<forall>b<n. length (l ! b) = g3 * g3 * 3 \<and> (\<forall>r\<in>set (l ! b). length r = 5 + nc)"
    using len by (auto simp: i Decode_init_def)
  from concat_total_count [OF s(2) m(2) l(2)]
  obtain out where out: "concat_total s m l = Inr out" "length out = n"
    "\<forall>b<n. out ! b = s ! b @ m ! b @ l ! b" by blast
  have "YOLOv4_call model heads x tr = Inr out"
    by (simp add: YOLOv4_call_def heads s(1) m(1) l(1) out(1))
  moreover have "\<forall>b<n. length (out ! b) = g1 * g1 * 3 + g2 * g2 * 3 + g3 * g3 * 3 \<and>
              (\<forall>r\<in>set (out ! b). length r = 5 + nc)"
    using out(3) s(3) m(3) l(3) by auto
  ultimately show ?thesis using out(2) by blast
qed

lemma mapM_np_reshape_rows:
  assumes "0 < stride" "\<forall>y\<in>set ys. stride dvd length (nd_data y)"
  shows "mapM (np_reshape_rows stride) ys =
           Inr (map (\<lambda>a. a\<lparr>nd_shape := [1, length (nd_data a) div stride, stride]\<rparr>) ys)"
  using assms by (intro mapM_Inr) (simp add: np_reshape_rows_def)

lemma np_concatenate_rows:
  assumes "ys \<noteq> []"
  shows "\<exists>res. np_concatenate_axis1
             (map (\<lambda>a. a\<lparr>nd_shape := [1, length (nd_data a) div stride, stride]\<rparr>) ys) = Inr res \<and>
           nd_shape res = [1, sum_list (map (\<lambda>a. length (nd_data a) div stride) ys), stride]"
proof -
  from assms obtain y rest where "ys = y # rest" by (cases ys) auto
  then show ?thesis by (simp add: np_concatenate_axis1_def comp_def)
qed

lemma sum_list_sizes:
  assumes "length ys = length gs" "0 < stride"
    "\<forall>s<length gs. length (nd_data (ys ! s)) = gs ! s * gs ! s * 3 * stride"
  shows "sum_list (map (\<lambda>a. length (nd_data a) div stride) ys) = sum_list (map (\<lambda>g. g * g * 3) gs)"
proof -
  have "map (\<lambda>a. length (nd_data a) div stride) ys = map (\<lambda>g. g * g * 3) gs"
    using assms by (simp add: list_eq_iff_nth_eq)
  then show ?thesis by simp
qed

lemma aggregate_count:
  assumes "ys \<noteq> []" "length ys = length gs"
    "\<forall>s<length gs. length (nd_data (ys ! s)) = gs ! s * gs ! s * 3 * (5 + c)"
  shows "\<exists>cands res. mapM (np_reshape_rows (5 + c)) ys = Inr cands \<and>
           np_concatenate_axis1 cands = Inr res \<and>
           nd_shape res = [1, sum_list (map (\<lambda>g. g * g * 3) gs), 5 + c]"
proof -
  have dv: "\<forall>y\<in>set ys. (5 + c) dvd length (nd_data y)"
  proof
    fix y assume "y \<in> set ys"
    then obtain s where "s < length ys" "y = ys ! s" by (metis in_set_conv_nth)
    then have "length (nd_data y) = gs ! s * gs ! s * 3 * (5 + c)" using assms(2,3) by simp
    then show "(5 + c) dvd length (nd_data y)" by simp
  qed
  have pos: "0 < 5 + c" by simp
  note m = mapM_np_reshape_rows [OF pos dv]
  from np_concatenate_rows [OF assms(1), of "5 + c"] obtain res where
    res: "np_concatenate_axis1
             (map (\<lambda>a. a\<lparr>nd_shape := [1, length (nd_data a) div (5 + c), 5 + c]\<rparr>) ys) = Inr res"
      "nd_shape res = [1, sum_list (map (\<lambda>a. length (nd_data a) div (5 + c)) ys), 5 + c]"
    by blast
  have "nd_shape res = [1, sum_list (map (\<lambda>g. g * g * 3) gs), 5 + c]"
    unfolding res(2) sum_list_sizes [OF assms(2) pos assms(3)] ..
  then show ?thesis using m res(1) by blast
qed

lemma predict_private_count:
  assumes "\<not> self_tpu self" "yolo_0 (self_config self) = Some m"
    and "mapM (\<lambda>od. get_tensor (invoke (set_tensor (self_interpreter self)
                                   (td_index (self_input_details self)) x)) (td_index od))
           (self_output_details self) = Inr yolos"
    and "yolos \<noteq> []" "length yolos = length gs"
    and "\<forall>s<length gs. length (nd_data (yolos ! s)) = gs ! s * gs ! s * 3 * (5 + classes m)"
  shows "\<exists>res. fst (predict_private ext self x) = Inr res \<and>
           nd_shape res = [1, sum_list (map (\<lambda>g. g * g * 3) gs), 5 + classes m]"
proof -
  from aggregate_count [OF assms(4,5,6)] obtain cands res where
    c: "mapM (np_reshape_rows (5 + classes m)) yolos = Inr cands"
      "np_concatenate_axis1 cands = Inr res"
      "nd_shape res = [1, sum_list (map (\<lambda>g. g * g * 3) gs), 5 + classes m]"
    by blast
  have "candidates_of ext self yolos = Inr cands"
    using assms(1,2) c(1) by (simp add: candidates_of_def)
  then have "fst (predict_private ext self x) = Inr res"
    using assms(3) c(2) by (simp add: predict_private_def Let_def)
  then show ?thesis using c(3) by blast
qed

lemma predict_private_count_tpu:
  assumes "self_tpu self" "yolo_tpu_0 (self_config self) = Some m"
    and "mapM (\<lambda>od. get_tensor (invoke (set_tensor (self_interpreter self)
                                   (td_index (self_input_details self)) x)) (td_index od))
           (self_output_details self) = Inr yolos"
    and "gs \<noteq> []" "length yolos div 2 = length gs"
    and "length gs \<le> length (self_anhcors self)" "length gs \<le> length (self_scale_x_y self)"
    and "\<forall>s<length gs. length (nd_data (yolo_layer ext (yolos ! (2 * s)) (yolos ! (2 * s + 1))
            (self_anhcors self ! s) (self_scale_x_y self ! s))) = gs ! s * gs ! s * 3 * (5 + classes m)"
  shows "\<exists>res. fst (predict_private ext self x) = Inr res \<and>
           nd_shape res = [1, sum_list (map (\<lambda>g. g * g * 3) gs), 5 + classes m]"
proof -
  let ?f = "\<lambda>s. yolo_layer ext (yolos ! (2 * s)) (yolos ! (2 * s + 1))
            (self_anhcors self ! s) (self_scale_x_y self ! s)"
  let ?ys = "map ?f [0..<length gs]"
  have 1: "mapM (\<lambda>i. case getitem (self_anhcors self) i of
                          Inl e \<Rightarrow> Inl e
                        | Inr a \<Rightarrow> (case getitem (self_scale_x_y self) i of
                                      Inl e \<Rightarrow> Inl e
                                    | Inr sc \<Rightarrow>
                                       Inr (yolo_layer ext (yolos ! (2 * i)) (yolos ! (2 * i + 1)) a sc)))
                   [0..<length gs] = Inr ?ys"
    using assms(6,7) by (intro mapM_Inr) (simp add: getitem_def)
  have "?ys \<noteq> []" using assms(4) by simp
  moreover have "length ?ys = length gs" by simp
  moreover have "\<forall>s<length gs. length (nd_data (?ys ! s)) = gs ! s * gs ! s * 3 * (5 + classes m)"
    using assms(8) by simp
  ultimately obtain cands res where
    c: "mapM (np_reshape_rows (5 + classes m)) ?ys = Inr cands"
      "np_concatenate_axis1 cands = Inr res"
      "nd_shape res = [1, sum_list (map (\<lambda>g. g * g * 3) gs), 5 + classes m]"
    using aggregate_count [of ?ys gs "classes m"] by blast
  have "candidates_of ext self yolos = Inr cands"
    using assms(1,2,5) 1 c(1) by (simp add: candidates_of_def Let_def)
  then have "fst (predict_private ext self x) = Inr res"
    using assms(3) c(2) by (simp add: predict_private_def Let_def)
  then show ?thesis using c(3) by blast
qed

lemma mapM_Inl:
  "mapM f xs = Inl e \<Longrightarrow> \<exists>x\<in>set xs. f x = Inl e"
  by (induction xs) (auto split: sum.splits)

lemma anchor_row_error:
  "anchor_row cfg m n = Inl e \<Longrightarrow> e = IndexError \<or> e = ZeroDivisionError"
  by (auto simp: anchor_row_def getitem_def split: if_splits sum.splits prod.splits)

lemma load_layer_error:
  "load_layer cfg lt i = Inl e \<Longrightarrow> e = IndexError \<or> e = ZeroDivisionError"
  by (auto simp: load_layer_def Let_def split: sum.splits dest!: mapM_Inl anchor_row_error)

lemma dim_differs_eval:
  "i < length shp \<Longrightarrow> j < length cshape \<Longrightarrow>
     dim_differs shp i cshape j = Inr (shp ! i \<noteq> cshape ! j)"
  by (simp add: dim_differs_def getitem_def)

lemma shape_mismatch_eval:
  assumes "4 \<le> length shp" "3 \<le> length cshape"
  shows "shape_mismatch shp cshape =
           Inr (shp ! 1 \<noteq> cshape ! 0 \<or> shp ! 2 \<noteq> cshape ! 1 \<or> shp ! 3 \<noteq> cshape ! 2)"
proof -
  have d: "dim_differs shp 1 cshape 0 = Inr (shp ! 1 \<noteq> cshape ! 0)"
    "dim_differs shp 2 cshape 1 = Inr (shp ! 2 \<noteq> cshape ! 1)"
    "dim_differs shp 3 cshape 2 = Inr (shp ! 3 \<noteq> cshape ! 2)"
    using assms by (simp_all only: dim_differs_eval)
  show ?thesis
    unfolding shape_mismatch_def d
    by (cases "shp ! 1 = cshape ! 0"; cases "shp ! 2 = cshape ! 1") simp_all
qed

lemma load_tflite_after_check:
  assumes "layer_count cfg ''yolo_tpu'' = Some c"
    and "(if 0 < c then tflite_Interpreter ext path (Some lib)
          else tflite_Interpreter ext path None) = Inr it"
    and "input_details it = details # rest"
    and "shape_mismatch (td_shape details) (net_input_shape (net cfg)) = Inr False"
  shows "load_tflite ext cfg path lib \<noteq> Inl (RuntimeError msg)"
proof
  assume a: "load_tflite ext cfg path lib = Inl (RuntimeError msg)"
  let ?lt = "if 0 < c then ''yolo_tpu'' else ''yolo''"
  show False
  proof (cases "layer_count cfg ?lt")
    case None
    then show ?thesis
      using a assms by (simp add: load_tflite_def Let_def getitem_def split: if_splits)
  next
    case (Some cnt)
    show ?thesis
    proof (cases "mapM (load_layer cfg ?lt) [0..<cnt]")
      case (Inl e)
      then have "e = IndexError \<or> e = ZeroDivisionError"
        by (auto dest!: mapM_Inl load_layer_error)
      moreover have "load_tflite ext cfg path lib = Inl e"
        using assms Some Inl by (simp add: load_tflite_def Let_def getitem_def split: if_splits)
      ultimately show ?thesis using a by auto
    next
      case (Inr layers)
      then show ?thesis
        using a assms Some by (simp add: load_tflite_def Let_def getitem_def split: if_splits)
    qed
  qed
qed

lemma load_tflite_Inr:
  assumes "load_tflite ext cfg path lib = Inr self"
  shows "\<exists>details rest. input_details (self_interpreter self) = details # rest \<and>
           self_input_details self = details \<and>
           self_input_float self = (td_dtype details = np_float32)"
  using assms
  by (cases "input_details (self_interpreter self)")
     (auto simp: load_tflite_def Let_def getitem_def
           split: option.splits sum.splits if_splits bool.splits)

lemma predict_private_interpreter:
  "self_interpreter (snd (predict_private ext self x)) =
     invoke (set_tensor (self_interpreter self) (td_index (self_input_details self)) x)"
  by (simp add: predict_private_def Let_def split: sum.splits)

lemma predict_interpreter:
  assumes "nd_shape frame = [height, width, channels]"
    and "resize_image ext frame = Inr image_data"
  shows "self_interpreter (snd (predict ext self frame)) =
           invoke (set_tensor (self_interpreter self) (td_index (self_input_details self))
             (if self_input_float self
              then true_divide (astype_float32 (newaxis image_data)) 255
              else newaxis image_data))"
proof (cases "self_input_float self")
  case True
  obtain r self' where p: "predict_private ext self (true_divide (astype_float32 (newaxis image_data)) 255) = (r, self')"
    by (cases "predict_private ext self (true_divide (astype_float32 (newaxis image_data)) 255)")
  have "snd (predict ext self frame) = self'"
    using assms True p
    by (simp add: predict_def Let_def split: sum.splits option.splits)
  moreover have "self_interpreter self' =
      invoke (set_tensor (self_interpreter self) (td_index (self_input_details self))
        (true_divide (astype_float32 (newaxis image_data)) 255))"
    using predict_private_interpreter [of ext self "true_divide (astype_float32 (newaxis image_data)) 255"] p
    by simp
  ultimately show ?thesis using True by simp
next
  case False
  obtain r self' where p: "predict_private ext self (newaxis image_data) = (r, self')"
    by (cases "predict_private ext self (newaxis image_data)")
  have "snd (predict ext self frame) = self'"
    using assms False p
    by (simp add: predict_def Let_def split: sum.splits option.splits)
  moreover have "self_interpreter self' =
      invoke (set_tensor (self_interpreter self) (td_index (self_input_details self))
        (newaxis image_data))"
    using predict_private_interpreter [of ext self "newaxis image_data"] p
    by simp
  ultimately show ?thesis using False by simp
qed

lemma example_load:
  "\<exists>self. load_tflite (example_externals dt [1, 2, 2, 3]) example_config ''m.tflite'' ''edgetpu'' = Inr self
      \<and> self_interpreter self = example_interpreter dt [1, 2, 2, 3]"
  by (simp add: load_tflite_def example_config_def example_externals_def example_interpreter_def
      Let_def getitem_def shape_mismatch_def dim_differs_def load_layer_def anchor_row_def
      example_metayolo_def)

section \<open>The claims about the model and the TFLite wrapper\<close>

text \<open>
  C6: a Decode layer on a grid of \<open>g\<close> returns, for every batch element, exactly
  \<open>g * g * 3\<close> candidate rows of length \<open>5 + C\<close>; \<open>YOLOv4.call\<close> returns the sum of
  \<open>g * g * 3\<close> over its three heads, in rows of length \<open>5 + C\<close>; and the array that
  \<open>_predict\<close> returns has shape \<open>(1, N, 5 + C)\<close> with \<open>N\<close> the sum of \<open>g * g * 3\<close> over
  the yolo layers, both without the Edge TPU, where output \<open>s\<close> of the interpreter holds
  \<open>g\<^sub>s * g\<^sub>s * 3 * (5 + C)\<close> values, and with it, where the array that \<open>_yolo_layer\<close>
  returns for layer \<open>s\<close> does.
\<close>

theorem candidate_counts:
  "((\<forall>x\<in>set xs. has_shape3 g g (3 * (5 + num_classes d)) x) \<and>
      length (anchors d) = 3 \<and> (\<forall>a\<in>set (anchors d). length a = 2) \<and> input_shape ! 1 = g
    \<longrightarrow> (\<exists>out. call (build d input_shape) xs training = Inr out \<and> length out = length xs \<and>
           (\<forall>b<length xs. length (out ! b) = g * g * 3 \<and>
              (\<forall>r\<in>set (out ! b). length r = 5 + num_classes d))))
   \<and> (YOLOv4_init anchs nc xyscales = Inr model \<and>
      (\<forall>A\<in>set anchs. length A = 3 \<and> (\<forall>a\<in>set A. length a = 2)) \<and>
      heads inp = (r93, r101, r109) \<and>
      (\<forall>t\<in>set r93. has_shape3 g1 g1 (3 * (5 + nc)) t) \<and>
      (\<forall>t\<in>set r101. has_shape3 g2 g2 (3 * (5 + nc)) t) \<and>
      (\<forall>t\<in>set r109. has_shape3 g3 g3 (3 * (5 + nc)) t) \<and>
      length r93 = n \<and> length r101 = n \<and> length r109 = n
    \<longrightarrow> (\<exists>out. YOLOv4_call model heads inp training = Inr out \<and> length out = n \<and>
           (\<forall>b<n. length (out ! b) = g1 * g1 * 3 + g2 * g2 * 3 + g3 * g3 * 3 \<and>
              (\<forall>r\<in>set (out ! b). length r = 5 + nc))))
   \<and> (\<not> self_tpu self \<and> yolo_0 (self_config self) = Some m \<and>
      mapM (\<lambda>od. get_tensor (invoke (set_tensor (self_interpreter self)
                                   (td_index (self_input_details self)) x)) (td_index od))
           (self_output_details self) = Inr yolos \<and>
      yolos \<noteq> [] \<and> length yolos = length gs \<and>
      (\<forall>s<length gs. length (nd_data (yolos ! s)) = gs ! s * gs ! s * 3 * (5 + classes m))
    \<longrightarrow> (\<exists>res. fst (predict_private ext self x) = Inr res \<and>
           nd_shape res = [1, sum_list (map (\<lambda>g. g * g * 3) gs), 5 + classes m]))
   \<and> (self_tpu self \<and> yolo_tpu_0 (self_config self) = Some m \<and>
      mapM (\<lambda>od. get_tensor (invoke (set_tensor (self_interpreter self)
                                   (td_index (self_input_details self)) x)) (td_index od))
           (self_output_details self) = Inr yolos \<and>
      gs \<noteq> [] \<and> length yolos div 2 = length gs \<and>
      length gs \<le> length (self_anhcors self) \<and> length gs \<le> length (self_scale_x_y self) \<and>
      (\<forall>s<length gs. length (nd_data (yolo_layer ext (yolos ! (2 * s)) (yolos ! (2 * s + 1))
            (self_anhcors self ! s) (self_scale_x_y self ! s))) = gs ! s * gs ! s * 3 * (5 + classes m))
    \<longrightarrow> (\<exists>res. fst (predict_private ext self x) = Inr res \<and>
           nd_shape res = [1, sum_list (map (\<lambda>g. g * g * 3) gs), 5 + classes m]))"
proof (intro conjI impI)
  assume "(\<forall>x\<in>set xs. has_shape3 g g (3 * (5 + num_classes d)) x) \<and>
      length (anchors d) = 3 \<and> (\<forall>a\<in>set (anchors d). length a = 2) \<and> input_shape ! 1 = g"
  then show "\<exists>out. call (build d input_shape) xs training = Inr out \<and> length out = length xs \<and>
           (\<forall>b<length xs. length (out ! b) = g * g * 3 \<and>
              (\<forall>r\<in>set (out ! b). length r = 5 + num_classes d))"
    using call_all [of xs g d input_shape training] by blast
next
  assume "YOLOv4_init anchs nc xyscales = Inr model \<and>
      (\<forall>A\<in>set anchs. length A = 3 \<and> (\<forall>a\<in>set A. length a = 2)) \<and>
      heads inp = (r93, r101, r109) \<and>
      (\<forall>t\<in>set r93. has_shape3 g1 g1 (3 * (5 + nc)) t) \<and>
      (\<forall>t\<in>set r101. has_shape3 g2 g2 (3 * (5 + nc)) t) \<and>
      (\<forall>t\<in>set r109. has_shape3 g3 g3 (3 * (5 + nc)) t) \<and>
      length r93 = n \<and> length r101 = n \<and> length r109 = n"
  then show "\<exists>out. YOLOv4_call model heads inp training = Inr out \<and> length out = n \<and>
           (\<forall>b<n. length (out ! b) = g1 * g1 * 3 + g2 * g2 * 3 + g3 * g3 * 3 \<and>
              (\<forall>r\<in>set (out ! b). length r = 5 + nc))"
    using YOLOv4_call_count [of anchs nc xyscales model heads inp r93 r101 r109 g1 g2 g3 n training]
    by blast
next
  assume "\<not> self_tpu self \<and> yolo_0 (self_config self) = Some m \<and>
      mapM (\<lambda>od. get_tensor (invoke (set_tensor (self_interpreter self)
                                   (td_index (self_input_details self)) x)) (td_index od))
           (self_output_details self) = Inr yolos \<and>
      yolos \<noteq> [] \<and> length yolos = length gs \<and>
      (\<forall>s<length gs. length (nd_data (yolos ! s)) = gs ! s * gs ! s * 3 * (5 + classes m))"
  then show "\<exists>res. fst (predict_private ext self x) = Inr res \<and>
           nd_shape res = [1, sum_list (map (\<lambda>g. g * g * 3) gs), 5 + classes m]"
    using predict_private_count [of self m x yolos gs ext] by blast
next
  assume "self_tpu self \<and> yolo_tpu_0 (self_config self) = Some m \<and>
      mapM (\<lambda>od. get_tensor (invoke (set_tensor (self_interpreter self)
                                   (td_index (self_input_details self)) x)) (td_index od))
           (self_output_details self) = Inr yolos \<and>
      gs \<noteq> [] \<and> length yolos div 2 = length gs \<and>
      length gs \<le> length (self_anhcors self) \<and> length gs \<le> length (self_scale_x_y self) \<and>
      (\<forall>s<length gs. length (nd_data (yolo_layer ext (yolos ! (2 * s)) (yolos ! (2 * s + 1))
            (self_anhcors self ! s) (self_scale_x_y self ! s))) = gs ! s * gs ! s * 3 * (5 + classes m))"
  then show "\<exists>res. fst (predict_private ext self x) = Inr res \<and>
           nd_shape res = [1, sum_list (map (\<lambda>g. g * g * 3) gs), 5 + classes m]"
    using predict_private_count_tpu [of self m x yolos gs ext] by blast
qed

theorem candidate_counts_witness:
  "(\<exists>out. call (build (Decode_init [[10, 13], [16, 30], [33, 23]] 8 1 (12 / 10)) [1, 2, 2, 18])
             [replicate 2 (replicate 2 (replicate 18 0))] False = Inr out \<and>
         length out = 1 \<and> length (out ! 0) = 2 * 2 * 3)
   \<and> (\<exists>out. YOLOv4_call
               \<lparr>decode93 = Decode_init [[10, 13], [16, 30], [33, 23]] 8 1 (12 / 10),
                 decode101 = Decode_init [[10, 13], [16, 30], [33, 23]] 16 1 (11 / 10),
                 decode109 = Decode_init [[10, 13], [16, 30], [33, 23]] 32 1 (105 / 100)\<rparr>
               (\<lambda>_. ([replicate 4 (replicate 4 (replicate 18 0))],
                       [replicate 2 (replicate 2 (replicate 18 0))],
                       [replicate 1 (replicate 1 (replicate 18 0))])) () False = Inr out \<and>
         length out = 1 \<and> length (out ! 0) = 4 * 4 * 3 + 2 * 2 * 3 + 1 * 1 * 3)
   \<and> (\<exists>res. fst (predict_private (example_externals np_float32 [1, 2, 2, 3]) (example_self False)
                    example_image) = Inr res \<and>
         nd_shape res = [1, 1 * 1 * 3 + 1 * 1 * 3, 6])
   \<and> (\<exists>res. fst (predict_private (example_externals np_float32 [1, 2, 2, 3]) (example_self True)
                    example_image) = Inr res \<and>
         nd_shape res = [1, 1 * 1 * 3, 6])"
proof -
  let ?A = "[[10, 13], [16, 30], [33, 23 :: real]]"
  let ?t = "\<lambda>g. replicate g (replicate g (replicate 18 (0::real)))"
  let ?model = "\<lparr>decode93 = Decode_init ?A 8 1 (12 / 10),
                 decode101 = Decode_init ?A 16 1 (11 / 10),
                 decode109 = Decode_init ?A 32 1 (105 / 100)\<rparr>"
  let ?heads = "\<lambda>_::unit. ([?t 4], [?t 2], [?t 1])"
  let ?ext = "example_externals np_float32 [1, 2, 2, 3]"
  note c = candidate_counts
      [where xs = "[?t 2]" and g = 2 and d = "Decode_init ?A 8 1 (12 / 10)"
        and input_shape = "[1, 2, 2, 18]" and training = False
        and anchs = "[?A, ?A, ?A]" and nc = 1 and xyscales = "[12 / 10, 11 / 10, 105 / 100]"
        and model = ?model and heads = ?heads and inp = "()"
        and ?r93.0 = "[?t 4]" and ?r101.0 = "[?t 2]" and ?r109.0 = "[?t 1]"
        and ?g1.0 = 4 and ?g2.0 = 2 and ?g3.0 = 1 and n = 1
        and m = example_metayolo and x = example_image
        and yolos = "[example_output, example_output]" and ext = ?ext]
  have 1: "\<exists>out. call (build (Decode_init ?A 8 1 (12 / 10)) [1, 2, 2, 18]) [?t 2] False = Inr out \<and>
         length out = 1 \<and> length (out ! 0) = 2 * 2 * 3"
    using c [where self = "example_self False" and gs = "[1, 1]", THEN conjunct1]
    by (simp add: has_shape3_def Decode_init_def) blast
  have 2: "\<exists>out. YOLOv4_call ?model ?heads () False = Inr out \<and>
         length out = 1 \<and> length (out ! 0) = 4 * 4 * 3 + 2 * 2 * 3 + 1 * 1 * 3"
    using c [where self = "example_self False" and gs = "[1, 1]", THEN conjunct2, THEN conjunct1]
    by (simp add: has_shape3_def Decode_init_def YOLOv4_init_def getitem_def) blast
  have 3: "\<exists>res. fst (predict_private ?ext (example_self False) example_image) = Inr res \<and>
         nd_shape res = [1, 1 * 1 * 3 + 1 * 1 * 3, 6]"
    using c [where self = "example_self False" and gs = "[1, 1]",
        THEN conjunct2, THEN conjunct2, THEN conjunct1]
    by (simp add: example_self_def example_config_def example_metayolo_def example_interpreter_def
        example_output_def get_tensor_def invoke_def set_tensor_def nth_Cons' less_Suc_eq)
  have 4: "\<exists>res. fst (predict_private ?ext (example_self True) example_image) = Inr res \<and>
         nd_shape res = [1, 1 * 1 * 3, 6]"
    using c [where self = "example_self True" and gs = "[1]",
        THEN conjunct2, THEN conjunct2, THEN conjunct2]
    by (simp add: example_self_def example_config_def example_metayolo_def example_interpreter_def
        example_output_def example_externals_def get_tensor_def invoke_def set_tensor_def)
  from 1 2 3 4 show ?thesis by blast
qed

text \<open>
  C8: when the interpreter has been created and its input has a shape of rank 4 or
  more (the configured shape has three entries or more), \<open>load_tflite\<close> raises the
  RuntimeError of the shape check if entry 1, 2 or 3 of the input shape differs from
  entry 0, 1 or 2 of the configured shape, and raises no RuntimeError if all three
  agree.
\<close>

theorem load_tflite_shape_check:
  assumes "layer_count cfg ''yolo_tpu'' = Some c"
    and "(if 0 < c then tflite_Interpreter ext tflite_path (Some edgetpu_lib)
          else tflite_Interpreter ext tflite_path None) = Inr it"
    and "input_details it = details # rest"
    and "4 \<le> length (td_shape details)" and "3 \<le> length (net_input_shape (net cfg))"
  shows "(td_shape details ! 1 \<noteq> net_input_shape (net cfg) ! 0
            \<or> td_shape details ! 2 \<noteq> net_input_shape (net cfg) ! 1
            \<or> td_shape details ! 3 \<noteq> net_input_shape (net cfg) ! 2
          \<longrightarrow> load_tflite ext cfg tflite_path edgetpu_lib =
                Inl (RuntimeError
                  ''YOLOv4: config.input_shape and tflite.input_details['shape'] do not match.''))
       \<and> (td_shape details ! 1 = net_input_shape (net cfg) ! 0
            \<and> td_shape details ! 2 = net_input_shape (net cfg) ! 1
            \<and> td_shape details ! 3 = net_input_shape (net cfg) ! 2
          \<longrightarrow> (\<forall>msg. load_tflite ext cfg tflite_path edgetpu_lib \<noteq> Inl (RuntimeError msg)))"
proof (intro conjI impI allI)
  assume "td_shape details ! 1 \<noteq> net_input_shape (net cfg) ! 0
            \<or> td_shape details ! 2 \<noteq> net_input_shape (net cfg) ! 1
            \<or> td_shape details ! 3 \<noteq> net_input_shape (net cfg) ! 2"
  then have "shape_mismatch (td_shape details) (net_input_shape (net cfg)) = Inr True"
    using shape_mismatch_eval [OF assms(4,5)] by simp
  then show "load_tflite ext cfg tflite_path edgetpu_lib =
                Inl (RuntimeError
                  ''YOLOv4: config.input_shape and tflite.input_details['shape'] do not match.'')"
    using assms(1,2,3)
    by (simp add: load_tflite_def Let_def getitem_def shape_error_def split: if_splits)
next
  fix msg
  assume "td_shape details ! 1 = net_input_shape (net cfg) ! 0
            \<and> td_shape details ! 2 = net_input_shape (net cfg) ! 1
            \<and> td_shape details ! 3 = net_input_shape (net cfg) ! 2"
  then have "shape_mismatch (td_shape details) (net_input_shape (net cfg)) = Inr False"
    using shape_mismatch_eval [OF assms(4,5)] by simp
  with assms(1,2,3) show "load_tflite ext cfg tflite_path edgetpu_lib \<noteq> Inl (RuntimeError msg)"
    by (rule load_tflite_after_check)
qed

theorem load_tflite_shape_check_witness:
  "load_tflite (example_externals np_float32 [1, 4, 4, 3]) example_config ''m.tflite'' ''edgetpu'' =
     Inl (RuntimeError ''YOLOv4: config.input_shape and tflite.input_details['shape'] do not match.'')
   \<and> (\<forall>msg. load_tflite (example_externals np_float32 [1, 2, 2, 3]) example_config ''m.tflite'' ''edgetpu''
          \<noteq> Inl (RuntimeError msg))"
  using load_tflite_shape_check [of example_config 0 "example_externals np_float32 [1, 4, 4, 3]"
      "''m.tflite''" "''edgetpu''" "example_interpreter np_float32 [1, 4, 4, 3]"
      "\<lparr>td_index = 0, td_shape = [1, 4, 4, 3], td_dtype = np_float32\<rparr>"
      "[]"]
    load_tflite_shape_check [of example_config 0 "example_externals np_float32 [1, 2, 2, 3]"
      "''m.tflite''" "''edgetpu''" "example_interpreter np_float32 [1, 2, 2, 3]"
      "\<lparr>td_index = 0, td_shape = [1, 2, 2, 3], td_dtype = np_float32\<rparr>"
      "[]"]
  by (simp add: example_config_def example_externals_def example_interpreter_def)

text \<open>
  C10: after \<open>load_tflite\<close>, \<open>predict\<close> on a frame of rank 3 that \<open>resize_image\<close> accepts
  runs the model's graph on the store that holds, at the index of the input, the
  resized image with a new leading axis: cast to float32 and divided by 255 when the
  element type of the model's first input is float32, and with its element type and
  values unchanged otherwise.
\<close>

theorem predict_normalization:
  assumes "load_tflite ext cfg tflite_path edgetpu_lib = Inr self"
    and "nd_shape frame = [height, width, channels]"
    and "resize_image ext frame = Inr image_data"
  shows "tensors (self_interpreter (snd (predict ext self frame))) =
           graph (self_interpreter self)
             ((tensors (self_interpreter self))
                (td_index (input_details (self_interpreter self) ! 0) \<mapsto>
                   (if td_dtype (input_details (self_interpreter self) ! 0) = np_float32
                    then \<lparr>nd_dtype = np_float32, nd_shape = 1 # nd_shape image_data,
                          nd_data = map (\<lambda>v. v / 255) (nd_data image_data)\<rparr>
                    else \<lparr>nd_dtype = nd_dtype image_data, nd_shape = 1 # nd_shape image_data,
                          nd_data = nd_data image_data\<rparr>)))"
proof -
  from load_tflite_Inr [OF assms(1)] obtain details rest where
    d: "input_details (self_interpreter self) = details # rest"
      "self_input_details self = details"
      "self_input_float self = (td_dtype details = np_float32)"
    by blast
  show ?thesis
    unfolding predict_interpreter [OF assms(2,3)]
    by (cases image_data)
       (simp add: invoke_def set_tensor_def d true_divide_def astype_float32_def newaxis_def)
qed

theorem predict_normalization_witness:
  "(\<exists>self. load_tflite (example_externals np_float32 [1, 2, 2, 3]) example_config
              ''m.tflite'' ''edgetpu'' = Inr self \<and>
      tensors (self_interpreter (snd (predict (example_externals np_float32 [1, 2, 2, 3]) self
                 \<lparr>nd_dtype = np_uint8, nd_shape = [4, 4, 3], nd_data = replicate 48 255\<rparr>))) 0
        = Some \<lparr>nd_dtype = np_float32, nd_shape = [1, 2, 2, 3], nd_data = replicate 12 1\<rparr>)
   \<and> (\<exists>self. load_tflite (example_externals np_uint8 [1, 2, 2, 3]) example_config
              ''m.tflite'' ''edgetpu'' = Inr self \<and>
      tensors (self_interpreter (snd (predict (example_externals np_uint8 [1, 2, 2, 3]) self
                 \<lparr>nd_dtype = np_uint8, nd_shape = [4, 4, 3], nd_data = replicate 48 255\<rparr>))) 0
        = Some \<lparr>nd_dtype = np_uint8, nd_shape = [1, 2, 2, 3], nd_data = replicate 12 255\<rparr>)"
proof -
  let ?frame = "\<lparr>nd_dtype = np_uint8, nd_shape = [4, 4, 3], nd_data = replicate 48 255\<rparr>"
  have part: "\<exists>self. load_tflite (example_externals dt [1, 2, 2, 3]) example_config
              ''m.tflite'' ''edgetpu'' = Inr self \<and>
      tensors (self_interpreter (snd (predict (example_externals dt [1, 2, 2, 3]) self ?frame))) 0
        = Some (if dt = np_float32
                then \<lparr>nd_dtype = np_float32, nd_shape = [1, 2, 2, 3], nd_data = replicate 12 1\<rparr>
                else \<lparr>nd_dtype = np_uint8, nd_shape = [1, 2, 2, 3], nd_data = replicate 12 255\<rparr>)"
    for dt
  proof -
    from example_load [of dt] obtain self where
      self: "load_tflite (example_externals dt [1, 2, 2, 3]) example_config ''m.tflite'' ''edgetpu'' = Inr self"
        "self_interpreter self = example_interpreter dt [1, 2, 2, 3]"
      by blast
    have "tensors (self_interpreter (snd (predict (example_externals dt [1, 2, 2, 3]) self ?frame))) 0
        = Some (if dt = np_float32
                then \<lparr>nd_dtype = np_float32, nd_shape = [1, 2, 2, 3], nd_data = replicate 12 1\<rparr>
                else \<lparr>nd_dtype = np_uint8, nd_shape = [1, 2, 2, 3], nd_data = replicate 12 255\<rparr>)"
      using predict_normalization [OF self(1), of ?frame 4 4 3 example_image]
      by (simp add: self(2) example_externals_def example_interpreter_def example_image_def)
    with self(1) show ?thesis by blast
  qed
  from part [of np_float32] part [of np_uint8] show ?thesis by simp
qed

end
